theory Spec2Isabelle
  imports Complex_Main "HOL-Library.Product_Lexorder" "HOL-Library.Log_Nat"
begin

section \<open>Floating-point values of the data frames\<close>

text \<open>
  The dashboard (\<^verbatim>\<open>dashboard/dashboard.py\<close>) computes with pandas columns of
  dtype float64. A float64 is modelled as an exact rational, extended with the three
  special values the source's arithmetic can produce: \<open>NaN\<close> (pandas' marker for a
  missing value, the mean of an empty selection, \<open>0.0 / 0.0\<close>) and the two infinities
  (numpy's result of dividing a non-zero float64 by zero: it warns and does not raise).
  Rounding and overflow of float64 are not modelled in these operations, and the two
  zeros are not told apart: every zero divisor of the source is a sum of integer counts,
  which is \<open>+0.0\<close>. The rounding of float64 is added in the section on the float64
  means below, for the one property that depends on it.
\<close>

datatype fval = Fin rat | PInf | NInf | NaN

fun fneg :: "fval \<Rightarrow> fval" where
  "fneg (Fin a) = Fin (- a)"
| "fneg PInf = NInf"
| "fneg NInf = PInf"
| "fneg NaN = NaN"

fun fadd :: "fval \<Rightarrow> fval \<Rightarrow> fval" where
  "fadd NaN _ = NaN"
| "fadd _ NaN = NaN"
| "fadd (Fin a) (Fin b) = Fin (a + b)"
| "fadd PInf NInf = NaN"
| "fadd NInf PInf = NaN"
| "fadd PInf _ = PInf"
| "fadd _ PInf = PInf"
| "fadd NInf _ = NInf"
| "fadd _ NInf = NInf"

definition fsub :: "fval \<Rightarrow> fval \<Rightarrow> fval" where
  "fsub x y = fadd x (fneg y)"

text \<open>The sign of a product or quotient with an infinite operand.\<close>

definition signed_inf :: "bool \<Rightarrow> fval" where
  "signed_inf positive = (if positive then PInf else NInf)"

fun fmul :: "fval \<Rightarrow> fval \<Rightarrow> fval" where
  "fmul NaN _ = NaN"
| "fmul _ NaN = NaN"
| "fmul (Fin a) (Fin b) = Fin (a * b)"
| "fmul (Fin a) PInf = (if a = 0 then NaN else signed_inf (0 < a))"
| "fmul (Fin a) NInf = (if a = 0 then NaN else signed_inf (a < 0))"
| "fmul PInf (Fin b) = (if b = 0 then NaN else signed_inf (0 < b))"
| "fmul NInf (Fin b) = (if b = 0 then NaN else signed_inf (b < 0))"
| "fmul PInf PInf = PInf"
| "fmul NInf NInf = PInf"
| "fmul PInf NInf = NInf"
| "fmul NInf PInf = NInf"

fun fdiv :: "fval \<Rightarrow> fval \<Rightarrow> fval" where
  "fdiv NaN _ = NaN"
| "fdiv _ NaN = NaN"
| "fdiv (Fin a) (Fin b) =
     (if b \<noteq> 0 then Fin (a / b)
      else if a = 0 then NaN else signed_inf (0 < a))"
| "fdiv (Fin a) PInf = Fin 0"
| "fdiv (Fin a) NInf = Fin 0"
| "fdiv PInf (Fin b) = signed_inf (0 \<le> b)"
| "fdiv NInf (Fin b) = signed_inf (b < 0)"
| "fdiv PInf PInf = NaN"
| "fdiv PInf NInf = NaN"
| "fdiv NInf PInf = NaN"
| "fdiv NInf NInf = NaN"

section \<open>Series\<close>

text \<open>
  \<^verbatim>\<open>Series.mean()\<close> and the \<^verbatim>\<open>'mean'\<close> aggregation of a group skip missing values
  (\<^verbatim>\<open>skipna=True\<close>), add what is left and divide by its count; with nothing left the
  mean is \<open>NaN\<close>.
\<close>

definition series_sum :: "fval list \<Rightarrow> fval" where
  "series_sum xs = foldl fadd (Fin 0) xs"

definition series_mean :: "fval list \<Rightarrow> fval" where
  "series_mean xs =
     (let ys = filter (\<lambda>x. x \<noteq> NaN) xs
      in if ys = [] then NaN else fdiv (series_sum ys) (Fin (of_nat (length ys))))"

text \<open>
  \<^verbatim>\<open>Series.shift(-n)\<close>: position \<open>i\<close> of the result holds position \<open>i + n\<close> of the
  series, and \<open>NaN\<close> where the series has no such position. The length is kept.
\<close>

definition shift_neg :: "nat \<Rightarrow> fval list \<Rightarrow> fval list" where
  "shift_neg n xs = drop n xs @ replicate (min n (length xs)) NaN"

section \<open>Data frames\<close>

text \<open>
  A raw record holds the columns of \<^verbatim>\<open>hour.csv\<close> and \<^verbatim>\<open>day.csv\<close> that the
  dashboard reads (\<^verbatim>\<open>hr\<close> exists in the hourly file only and is read only from the hourly
  frame). \<^verbatim>\<open>dteday\<close> is a calendar date (year, month, day).
\<close>

type_synonym date = "nat \<times> nat \<times> nat"
type_synonym period = "nat \<times> nat"

record raw_record =
  dteday :: date
  yr :: int
  mnth :: int
  hr :: int
  weekday :: int
  weathersit :: int
  casual :: int
  registered :: int
  cnt :: int

text \<open>
  A row of a data frame is a raw record together with the columns that the helper
  functions assign on the frame they are given: \<^verbatim>\<open>df['ym'] = ...\<close> and
  \<^verbatim>\<open>df['cnt_lag1'] = ...\<close> to \<^verbatim>\<open>df['registered_lag2'] = ...\<close>. \<open>None\<close> says that
  the frame has no such column (the state after loading); \<open>Some NaN\<close> is a missing value
  in a column that exists.
\<close>

record row = raw_record +
  ym :: "period option"
  cnt_lag1 :: "fval option"
  cnt_lag2 :: "fval option"
  casual_lag1 :: "fval option"
  casual_lag2 :: "fval option"
  registered_lag1 :: "fval option"
  registered_lag2 :: "fval option"

type_synonym dataframe = "row list"

text \<open>An integer column of a frame, read as floats.\<close>

definition int_col :: "(row \<Rightarrow> int) \<Rightarrow> dataframe \<Rightarrow> fval list" where
  "int_col c df = map (\<lambda>r. Fin (of_int (c r))) df"

text \<open>
  The result of \<^verbatim>\<open>df.groupby(key).agg({'casual': 'mean', 'registered': 'mean',
  'cnt': 'mean'}).reset_index()\<close>: one row per group, holding the group's key (the column
  or columns grouped by) and the three means. \<^verbatim>\<open>groupby\<close> sorts the group keys
  ascending (\<^verbatim>\<open>sort=True\<close> is its default; a list of columns is sorted
  lexicographically) and forms a group only for a key that occurs.
\<close>

record 'k means =
  gkey :: 'k
  m_casual :: fval
  m_registered :: fval
  m_cnt :: fval

definition group_keys :: "(row \<Rightarrow> 'k::linorder) \<Rightarrow> dataframe \<Rightarrow> 'k list" where
  "group_keys key df = sort (remdups (map key df))"

definition group_of :: "(row \<Rightarrow> 'k) \<Rightarrow> 'k \<Rightarrow> dataframe \<Rightarrow> dataframe" where
  "group_of key k df = filter (\<lambda>r. key r = k) df"

definition groupby_mean :: "(row \<Rightarrow> 'k::linorder) \<Rightarrow> dataframe \<Rightarrow> 'k means list" where
  "groupby_mean key df =
     map (\<lambda>k. \<lparr>gkey = k,
               m_casual = series_mean (int_col casual (group_of key k df)),
               m_registered = series_mean (int_col registered (group_of key k df)),
               m_cnt = series_mean (int_col cnt (group_of key k df))\<rparr>)
         (group_keys key df)"

section \<open>The helper functions\<close>

definition create_hourly_patterns_df :: "dataframe \<Rightarrow> int means list" where
  "create_hourly_patterns_df df = groupby_mean hr df"

text \<open>\<^verbatim>\<open>Series.map(d)\<close> with a dict: a value that is no key of the dict maps to
  a missing value, here \<open>None\<close>; it does not raise.\<close>

definition map_dict :: "('k \<times> 'v) list \<Rightarrow> 'k \<Rightarrow> 'v option" where
  "map_dict d k = map_of d k"

record daily_row = "int means" +
  day_name :: "string option"

definition day_names :: "(int \<times> string) list" where
  "day_names = [(0, ''Sunday''), (1, ''Monday''), (2, ''Tuesday''), (3, ''Wednesday''),
                (4, ''Thursday''), (5, ''Friday''), (6, ''Saturday'')]"

definition create_daily_patterns_df :: "dataframe \<Rightarrow> daily_row list" where
  "create_daily_patterns_df df =
     map (\<lambda>m. \<lparr>gkey = gkey m, m_casual = m_casual m, m_registered = m_registered m,
               m_cnt = m_cnt m, day_name = map_dict day_names (gkey m)\<rparr>)
         (groupby_mean weekday df)"

record weather_row = "int means" +
  weather_desc :: "string option"

definition weather_descs :: "(int \<times> string) list" where
  "weather_descs = [(1, ''Clear''), (2, ''Mist + Cloudy''), (3, ''Light Snow/Rain''),
                    (4, ''Heavy Rain/Snow'')]"

definition create_weather_impact_df :: "dataframe \<Rightarrow> weather_row list" where
  "create_weather_impact_df df =
     map (\<lambda>m. \<lparr>gkey = gkey m, m_casual = m_casual m, m_registered = m_registered m,
               m_cnt = m_cnt m, weather_desc = map_dict weather_descs (gkey m)\<rparr>)
         (groupby_mean weathersit df)"

text \<open>
  \<^verbatim>\<open>create_monthly_trends_df\<close> first assigns the column \<^verbatim>\<open>ym\<close> on the frame it was
  given, the month period of \<^verbatim>\<open>dteday\<close>, and then groups by \<^verbatim>\<open>['ym', 'yr']\<close> and
  takes the mean of \<^verbatim>\<open>cnt\<close>. The model returns the frame as the call leaves it together
  with the function's result. \<^verbatim>\<open>groupby\<close> leaves out a row whose key is missing.
  A month period is ordered by year, then month; its string is the year, a dash and the
  month in two digits.
\<close>

definition to_period_M :: "date \<Rightarrow> period" where
  "to_period_M d = (fst d, fst (snd d))"

function str_nat :: "nat \<Rightarrow> string" where
  "str_nat n =
     (if n < 10 then [''0123456789'' ! n]
      else str_nat (n div 10) @ [''0123456789'' ! (n mod 10)])"
  by pat_completeness auto
termination
  by (relation "measure id") auto

declare str_nat.simps [simp del]

definition period_str :: "period \<Rightarrow> string" where
  "period_str p =
     str_nat (fst p) @ ''-'' @ (if snd p < 10 then ''0'' else []) @ str_nat (snd p)"

record trend_row =
  t_ym :: string
  t_yr :: int
  t_cnt :: fval

definition create_monthly_trends_df :: "dataframe \<Rightarrow> dataframe \<times> trend_row list" where
  "create_monthly_trends_df df =
     (let df' = map (\<lambda>r. r\<lparr>ym := Some (to_period_M (dteday r))\<rparr>) df;
          keys = sort (remdups (concat (map
                   (\<lambda>r. case ym r of None \<Rightarrow> [] | Some p \<Rightarrow> [(p, yr r)]) df')));
          monthly_trends =
            map (\<lambda>(p, y). \<lparr>t_ym = period_str p, t_yr = y,
                   t_cnt = series_mean (int_col cnt
                     (filter (\<lambda>r. ym r = Some p \<and> yr r = y) df'))\<rparr>) keys
      in (df', monthly_trends))"

text \<open>
  \<^verbatim>\<open>create_lag_analysis_df\<close> assigns six columns on the frame it was given, each a
  count column shifted up by one or two positions, and returns a copy of the rows with
  \<^verbatim>\<open>weathersit >= 3\<close>. \<open>assign upd col df\<close> is the statement \<^verbatim>\<open>df[name] = col\<close>, where
  \<open>upd\<close> is the update of the field \<^verbatim>\<open>name\<close>.
\<close>

definition assign ::
    "((fval option \<Rightarrow> fval option) \<Rightarrow> row \<Rightarrow> row) \<Rightarrow> fval list \<Rightarrow> dataframe \<Rightarrow> dataframe" where
  "assign upd col df = map2 (\<lambda>r v. upd (\<lambda>_. Some v) r) df col"

definition create_lag_analysis_df :: "dataframe \<Rightarrow> dataframe \<times> dataframe" where
  "create_lag_analysis_df df =
     (let df1 = assign cnt_lag1_update (shift_neg 1 (int_col cnt df)) df;
          df2 = assign cnt_lag2_update (shift_neg 2 (int_col cnt df1)) df1;
          df3 = assign casual_lag1_update (shift_neg 1 (int_col casual df2)) df2;
          df4 = assign casual_lag2_update (shift_neg 2 (int_col casual df3)) df3;
          df5 = assign registered_lag1_update (shift_neg 1 (int_col registered df4)) df4;
          df6 = assign registered_lag2_update (shift_neg 2 (int_col registered df5)) df5;
          bad_weather_df = filter (\<lambda>r. 3 \<le> weathersit r) df6
      in (df6, bad_weather_df))"

section \<open>The monthly trends of the page\<close>

text \<open>
  The page calls \<^verbatim>\<open>create_monthly_trends_df\<close> and at once replaces its result by a
  grouping by \<^verbatim>\<open>['yr', 'mnth']\<close>. The yearly growth \<^verbatim>\<open>pertumbuhan_tahunan\<close> is a dict
  with the keys \<^verbatim>\<open>'casual'\<close> and \<^verbatim>\<open>'registered'\<close>; its two values are the same
  expression over the two columns of that table, here \<open>yoy\<close>.
\<close>

definition monthly_trends :: "dataframe \<Rightarrow> (int \<times> int) means list" where
  "monthly_trends filtered_hour_df = groupby_mean (\<lambda>r. (yr r, mnth r)) filtered_hour_df"

definition yoy :: "((int \<times> int) means \<Rightarrow> fval) \<Rightarrow> (int \<times> int) means list \<Rightarrow> fval" where
  "yoy col mt =
     fmul (fsub (fdiv (series_mean (map col (filter (\<lambda>m. fst (gkey m) = 1) mt)))
                      (series_mean (map col (filter (\<lambda>m. fst (gkey m) = 0) mt))))
                (Fin 1))
          (Fin 100)"

definition pertumbuhan_tahunan :: "(int \<times> int) means list \<Rightarrow> (string \<times> fval) list" where
  "pertumbuhan_tahunan mt = [(''casual'', yoy m_casual mt), (''registered'', yoy m_registered mt)]"

section \<open>Calls on frames held by reference\<close>

text \<open>
  Python passes a frame to a function by reference, and a function that assigns a column
  on its argument changes the caller's frame. A store is the list of the tables that
  exist, and the address of a table is its position. \<open>run_operation\<close> gives, for each
  operation of the page, the frame as the operation leaves it and the derived view: the
  three pattern functions and the monthly grouping of the page assign nothing on their
  argument, \<^verbatim>\<open>create_monthly_trends_df\<close> and \<^verbatim>\<open>create_lag_analysis_df\<close> do. A call on
  the frame at address \<open>a\<close> leaves that frame at \<open>a\<close>, puts the derived view (the
  new object that \<^verbatim>\<open>reset_index\<close> or \<^verbatim>\<open>copy\<close> returns) at a new address and returns
  this address; calling on anything but a frame fails.
\<close>

datatype table =
    Frame dataframe
  | Hourly_view "int means list"
  | Daily_view "daily_row list"
  | Weather_view "weather_row list"
  | Trend_view "trend_row list"
  | Monthly_view "(int \<times> int) means list"

datatype operation =
  Hourly_pattern | Weekday_pattern | Weather_pattern | Monthly_trend | Monthly_helper
  | Bad_weather_lag

fun run_operation :: "operation \<Rightarrow> dataframe \<Rightarrow> dataframe \<times> table" where
  "run_operation Hourly_pattern df = (df, Hourly_view (create_hourly_patterns_df df))"
| "run_operation Weekday_pattern df = (df, Daily_view (create_daily_patterns_df df))"
| "run_operation Weather_pattern df = (df, Weather_view (create_weather_impact_df df))"
| "run_operation Monthly_trend df = (df, Monthly_view (monthly_trends df))"
| "run_operation Monthly_helper df =
     (fst (create_monthly_trends_df df), Trend_view (snd (create_monthly_trends_df df)))"
| "run_operation Bad_weather_lag df =
     (fst (create_lag_analysis_df df), Frame (snd (create_lag_analysis_df df)))"

type_synonym store = "table list"

definition call_operation :: "operation \<Rightarrow> nat \<Rightarrow> store \<Rightarrow> (nat \<times> store) option" where
  "call_operation opn a s =
     (if a < length s then
        (case s ! a of
           Frame df \<Rightarrow>
             Some (length s, s[a := Frame (fst (run_operation opn df))] @ [snd (run_operation opn df)])
         | _ \<Rightarrow> None)
      else None)"

section \<open>The float64 means\<close>

text \<open>
  The means that \<^verbatim>\<open>groupby(...).agg(... 'mean' ...)\<close> returns are float64 values: every
  arithmetic result is rounded to the nearest number with a significand of 53 bits, a tie
  to the one with an even significand. \<open>f64\<close> is this rounding on the rationals;
  \<open>exponent x\<close> is the power of two at or below a positive \<open>x\<close>. The exponent range of
  float64 is not modelled: the means of counts lie far inside it.
\<close>

definition round_half_even :: "rat \<Rightarrow> int" where
  "round_half_even y =
     (let f = \<lfloor>y\<rfloor>; d = y - of_int f
      in if d < 1 / 2 then f else if 1 / 2 < d then f + 1 else if even f then f else f + 1)"

definition exponent :: "rat \<Rightarrow> int" where
  "exponent x = (if 1 \<le> x then bitlen \<lfloor>x\<rfloor> - 1 else - bitlen (\<lceil>1 / x\<rceil> - 1))"

definition f64 :: "rat \<Rightarrow> rat" where
  "f64 x =
     (if x = 0 then 0
      else let ulp = power_int 2 (exponent \<bar>x\<bar> - 52)
           in of_int (round_half_even (x / ulp)) * ulp)"

text \<open>
  The mean of a group as pandas computes it: the integer counts are converted to float64,
  added up in float64, and the sum is divided by the float64 count. The sum is taken from
  left to right here; as long as the counts add up to at most \<open>2 ^ 53\<close> in absolute
  value every partial sum is an integer that float64 holds exactly, so that pairwise or
  compensated summation gives the same sum.
\<close>

fun fround :: "fval \<Rightarrow> fval" where
  "fround (Fin a) = Fin (f64 a)"
| "fround PInf = PInf"
| "fround NInf = NInf"
| "fround NaN = NaN"

definition series_sum_f64 :: "fval list \<Rightarrow> fval" where
  "series_sum_f64 xs = foldl (\<lambda>a x. fround (fadd a x)) (Fin 0) xs"

definition series_mean_f64 :: "fval list \<Rightarrow> fval" where
  "series_mean_f64 xs =
     (let ys = filter (\<lambda>x. x \<noteq> NaN) xs
      in if ys = [] then NaN
         else fround (fdiv (series_sum_f64 ys) (fround (Fin (of_nat (length ys))))))"

definition int_col_f64 :: "(row \<Rightarrow> int) \<Rightarrow> dataframe \<Rightarrow> fval list" where
  "int_col_f64 c df = map (\<lambda>r. fround (Fin (of_int (c r)))) df"

definition groupby_mean_f64 :: "(row \<Rightarrow> 'k::linorder) \<Rightarrow> dataframe \<Rightarrow> 'k means list" where
  "groupby_mean_f64 key df =
     map (\<lambda>k. \<lparr>gkey = k,
               m_casual = series_mean_f64 (int_col_f64 casual (group_of key k df)),
               m_registered = series_mean_f64 (int_col_f64 registered (group_of key k df)),
               m_cnt = series_mean_f64 (int_col_f64 cnt (group_of key k df))\<rparr>)
         (group_keys key df)"

definition create_hourly_patterns_df_f64 :: "dataframe \<Rightarrow> int means list" where
  "create_hourly_patterns_df_f64 df = groupby_mean_f64 hr df"

section \<open>Reference notions and example frames\<close>

text \<open>The arithmetic mean of a list of integer counts, as a rational number.\<close>

definition arith_mean :: "int list \<Rightarrow> rat" where
  "arith_mean xs = of_int (sum_list xs) / of_nat (length xs)"

text \<open>A frame as \<^verbatim>\<open>load_data\<close> returns it has none of the assigned columns.\<close>

definition loaded :: "raw_record \<Rightarrow> row" where
  "loaded r = raw_record.extend r (row.fields None None None None None None None)"

definition hourly_example :: dataframe where
  "hourly_example =
     [loaded \<lparr>dteday = (2011, 1, 1), yr = 0, mnth = 1, hr = 8, weekday = 6, weathersit = 1,
              casual = 3, registered = 13, cnt = 16\<rparr>,
      loaded \<lparr>dteday = (2011, 1, 1), yr = 0, mnth = 1, hr = 0, weekday = 6, weathersit = 1,
              casual = 1, registered = 5, cnt = 6\<rparr>,
      loaded \<lparr>dteday = (2011, 1, 2), yr = 0, mnth = 1, hr = 8, weekday = 0, weathersit = 2,
              casual = 4, registered = 20, cnt = 24\<rparr>]"

definition weekday_example :: dataframe where
  "weekday_example =
     [loaded \<lparr>dteday = (2011, 1, 2), yr = 0, mnth = 1, hr = 0, weekday = 0, weathersit = 1,
              casual = 10, registered = 90, cnt = 100\<rparr>,
      loaded \<lparr>dteday = (2011, 1, 9), yr = 0, mnth = 1, hr = 0, weekday = 0, weathersit = 1,
              casual = 20, registered = 80, cnt = 100\<rparr>,
      loaded \<lparr>dteday = (2011, 1, 3), yr = 0, mnth = 1, hr = 0, weekday = 1, weathersit = 1,
              casual = 5, registered = 45, cnt = 50\<rparr>]"

definition weather_example :: dataframe where
  "weather_example =
     [loaded \<lparr>dteday = (2011, 1, 2), yr = 0, mnth = 1, hr = 0, weekday = 0, weathersit = 5,
              casual = 10, registered = 90, cnt = 100\<rparr>,
      loaded \<lparr>dteday = (2011, 1, 3), yr = 0, mnth = 1, hr = 0, weekday = 1, weathersit = 1,
              casual = 5, registered = 45, cnt = 50\<rparr>]"

definition weather_mixed_example :: dataframe where
  "weather_mixed_example =
     [loaded \<lparr>dteday = (2011, 1, 2), yr = 0, mnth = 1, hr = 0, weekday = 0, weathersit = 5,
              casual = 10, registered = 90, cnt = 100\<rparr>,
      loaded \<lparr>dteday = (2011, 1, 3), yr = 0, mnth = 1, hr = 0, weekday = 1, weathersit = 1,
              casual = 5, registered = 45, cnt = 50\<rparr>,
      loaded \<lparr>dteday = (2011, 1, 4), yr = 0, mnth = 1, hr = 0, weekday = 2, weathersit = 5,
              casual = 20, registered = 70, cnt = 90\<rparr>,
      loaded \<lparr>dteday = (2011, 1, 5), yr = 0, mnth = 1, hr = 0, weekday = 3, weathersit = 3,
              casual = 1, registered = 2, cnt = 3\<rparr>,
      loaded \<lparr>dteday = (2011, 1, 6), yr = 0, mnth = 1, hr = 0, weekday = 4, weathersit = 5,
              casual = 30, registered = 80, cnt = 110\<rparr>]"

definition monthly_example :: dataframe where
  "monthly_example =
     [loaded \<lparr>dteday = (2012, 1, 2), yr = 1, mnth = 1, hr = 0, weekday = 1, weathersit = 1,
              casual = 10, registered = 90, cnt = 100\<rparr>,
      loaded \<lparr>dteday = (2011, 12, 3), yr = 0, mnth = 12, hr = 0, weekday = 6, weathersit = 1,
              casual = 5, registered = 45, cnt = 50\<rparr>,
      loaded \<lparr>dteday = (2011, 2, 3), yr = 0, mnth = 2, hr = 0, weekday = 4, weathersit = 1,
              casual = 7, registered = 45, cnt = 52\<rparr>,
      loaded \<lparr>dteday = (2011, 12, 4), yr = 0, mnth = 12, hr = 0, weekday = 0, weathersit = 1,
              casual = 6, registered = 46, cnt = 52\<rparr>]"

text \<open>
  The lag table in the words of the specification: the value of a count column at a
  position of the full frame, or the missing marker where the frame has no such position,
  and the record at position \<open>i\<close> with its six lag columns taken from the positions
  \<open>i + 1\<close> and \<open>i + 2\<close> of the full frame.
\<close>

definition lag_value :: "(row \<Rightarrow> int) \<Rightarrow> dataframe \<Rightarrow> nat \<Rightarrow> fval" where
  "lag_value c df j = (if j < length df then Fin (of_int (c (df ! j))) else NaN)"

definition lag_row :: "dataframe \<Rightarrow> nat \<Rightarrow> row" where
  "lag_row df i = (df ! i)
     \<lparr>cnt_lag1 := Some (lag_value cnt df (i + 1)),
      cnt_lag2 := Some (lag_value cnt df (i + 2)),
      casual_lag1 := Some (lag_value casual df (i + 1)),
      casual_lag2 := Some (lag_value casual df (i + 2)),
      registered_lag1 := Some (lag_value registered df (i + 1)),
      registered_lag2 := Some (lag_value registered df (i + 2))\<rparr>"

definition lag_example :: dataframe where
  "lag_example =
     [loaded \<lparr>dteday = (2011, 1, 1), yr = 0, mnth = 1, hr = 0, weekday = 6, weathersit = 2,
              casual = 331, registered = 654, cnt = 985\<rparr>,
      loaded \<lparr>dteday = (2011, 1, 2), yr = 0, mnth = 1, hr = 0, weekday = 0, weathersit = 2,
              casual = 131, registered = 670, cnt = 801\<rparr>,
      loaded \<lparr>dteday = (2011, 1, 3), yr = 0, mnth = 1, hr = 0, weekday = 1, weathersit = 1,
              casual = 120, registered = 1229, cnt = 1349\<rparr>,
      loaded \<lparr>dteday = (2011, 1, 4), yr = 0, mnth = 1, hr = 0, weekday = 2, weathersit = 3,
              casual = 108, registered = 1454, cnt = 1562\<rparr>,
      loaded \<lparr>dteday = (2011, 1, 5), yr = 0, mnth = 1, hr = 0, weekday = 3, weathersit = 1,
              casual = 82, registered = 1518, cnt = 1600\<rparr>]"

definition lag_last_example :: dataframe where
  "lag_last_example =
     [loaded \<lparr>dteday = (2011, 1, 24), yr = 0, mnth = 1, hr = 0, weekday = 1, weathersit = 1,
              casual = 86, registered = 1330, cnt = 1416\<rparr>,
      loaded \<lparr>dteday = (2011, 1, 25), yr = 0, mnth = 1, hr = 0, weekday = 2, weathersit = 2,
              casual = 186, registered = 1799, cnt = 1985\<rparr>,
      loaded \<lparr>dteday = (2011, 1, 26), yr = 0, mnth = 1, hr = 0, weekday = 3, weathersit = 3,
              casual = 34, registered = 472, cnt = 506\<rparr>]"

text \<open>
  The yearly growth in the words of the specification: the percentage by which a mean of
  year 1 exceeds a mean of year 0. \<open>year_records_mean\<close> is the mean of a count column
  over all records of a year; \<open>year_monthly_means_mean\<close> is the mean, over the months of
  a year that occur, of the monthly means of the column.
\<close>

definition growth_pct :: "fval \<Rightarrow> fval \<Rightarrow> fval" where
  "growth_pct m1 m0 = fmul (fsub (fdiv m1 m0) (Fin 1)) (Fin 100)"

definition year_records_mean :: "(row \<Rightarrow> int) \<Rightarrow> int \<Rightarrow> dataframe \<Rightarrow> fval" where
  "year_records_mean c y df = series_mean (int_col c (filter (\<lambda>r. yr r = y) df))"

definition months_of_year :: "int \<Rightarrow> dataframe \<Rightarrow> int list" where
  "months_of_year y df = sort (remdups (map mnth (filter (\<lambda>r. yr r = y) df)))"

definition year_monthly_means_mean :: "(row \<Rightarrow> int) \<Rightarrow> int \<Rightarrow> dataframe \<Rightarrow> fval" where
  "year_monthly_means_mean c y df =
     series_mean (map (\<lambda>m. series_mean (int_col c (filter (\<lambda>r. yr r = y \<and> mnth r = m) df)))
                      (months_of_year y df))"

definition growth_example :: dataframe where
  "growth_example =
     [loaded \<lparr>dteday = (2011, 1, 1), yr = 0, mnth = 1, hr = 0, weekday = 6, weathersit = 1,
              casual = 10, registered = 90, cnt = 100\<rparr>,
      loaded \<lparr>dteday = (2012, 1, 1), yr = 1, mnth = 1, hr = 0, weekday = 0, weathersit = 1,
              casual = 10, registered = 90, cnt = 100\<rparr>,
      loaded \<lparr>dteday = (2012, 1, 2), yr = 1, mnth = 1, hr = 0, weekday = 1, weathersit = 1,
              casual = 10, registered = 90, cnt = 100\<rparr>,
      loaded \<lparr>dteday = (2012, 2, 1), yr = 1, mnth = 2, hr = 0, weekday = 3, weathersit = 1,
              casual = 40, registered = 60, cnt = 100\<rparr>]"

definition zero_base_example :: dataframe where
  "zero_base_example =
     [loaded \<lparr>dteday = (2011, 1, 1), yr = 0, mnth = 1, hr = 0, weekday = 6, weathersit = 1,
              casual = 0, registered = 90, cnt = 90\<rparr>,
      loaded \<lparr>dteday = (2012, 1, 1), yr = 1, mnth = 1, hr = 0, weekday = 0, weathersit = 1,
              casual = 10, registered = 90, cnt = 100\<rparr>]"

text \<open>
  A record is consistent when its \<^verbatim>\<open>yr\<close> and \<^verbatim>\<open>mnth\<close> agree with the calendar year and
  month of its \<^verbatim>\<open>dteday\<close>; the base year 2011 is the one the page gives to \<^verbatim>\<open>yr = 0\<close>.
  \<open>period_of_key\<close> is the month period that belongs to a key of the page's grouping.
\<close>

definition dates_consistent :: "row \<Rightarrow> bool" where
  "dates_consistent r \<longleftrightarrow>
     int (fst (dteday r)) = 2011 + yr r \<and> int (fst (snd (dteday r))) = mnth r"

definition period_of_key :: "int \<times> int \<Rightarrow> period" where
  "period_of_key k = (nat (2011 + fst k), nat (snd k))"

definition hour5_record :: "int \<Rightarrow> int \<Rightarrow> row" where
  "hour5_record c g =
     loaded \<lparr>dteday = (2011, 1, 1), yr = 0, mnth = 1, hr = 5, weekday = 6, weathersit = 1,
             casual = c, registered = g, cnt = c + g\<rparr>"

definition tenths_example :: dataframe where
  "tenths_example =
     [hour5_record 1 2, hour5_record 0 0, hour5_record 0 0, hour5_record 0 0, hour5_record 0 0,
      hour5_record 0 0, hour5_record 0 0, hour5_record 0 0, hour5_record 0 0, hour5_record 0 0]"

section \<open>Means of integer columns\<close>

lemma foldl_fadd_Fin: "foldl fadd (Fin a) (map Fin qs) = Fin (a + sum_list qs)"
  by (induction qs arbitrary: a) (simp_all add: add.assoc)

lemma filter_NaN_Fin: "filter (\<lambda>x. x \<noteq> NaN) (map Fin qs) = map Fin qs"
  by (induction qs) simp_all

lemma series_mean_Fin:
  "series_mean (map Fin qs) =
     (if qs = [] then NaN else Fin (sum_list qs / of_nat (length qs)))"
  by (simp add: series_mean_def series_sum_def filter_NaN_Fin foldl_fadd_Fin)

lemma int_col_Fin: "int_col c df = map Fin (map (\<lambda>r. of_int (c r)) df)"
  by (simp add: int_col_def)

lemma sum_list_of_int_rat:
  "sum_list (map (\<lambda>r. (of_int (c r) :: rat)) g) = of_int (sum_list (map c g))"
  by (induction g) simp_all

lemma mean_int_col:
  "g \<noteq> [] \<Longrightarrow> series_mean (int_col c g) = Fin (arith_mean (map c g))"
  by (simp add: int_col_Fin series_mean_Fin sum_list_of_int_rat arith_mean_def del: map_map)

section \<open>Grouping\<close>

lemma set_group_keys: "set (group_keys key df) = key ` set df"
  by (simp add: group_keys_def)

lemma distinct_group_keys: "distinct (group_keys key df)"
  by (simp add: group_keys_def)

lemma sorted_group_keys: "sorted (group_keys key df)"
  by (simp add: group_keys_def)

lemma group_of_nonempty: "k \<in> set (group_keys key df) \<Longrightarrow> group_of key k df \<noteq> []"
  by (auto simp: set_group_keys group_of_def filter_empty_conv)

lemma gkey_groupby_mean: "map gkey (groupby_mean key df) = group_keys key df"
  by (simp add: groupby_mean_def comp_def)

lemma groupby_mean_row:
  assumes "row \<in> set (groupby_mean key df)"
  shows "gkey row \<in> key ` set df"
    and "group_of key (gkey row) df \<noteq> []"
    and "m_casual row = Fin (arith_mean (map casual (group_of key (gkey row) df)))"
    and "m_registered row = Fin (arith_mean (map registered (group_of key (gkey row) df)))"
    and "m_cnt row = Fin (arith_mean (map cnt (group_of key (gkey row) df)))"
proof -
  from assms obtain k where k: "k \<in> set (group_keys key df)"
    and row: "row = \<lparr>gkey = k,
               m_casual = series_mean (int_col casual (group_of key k df)),
               m_registered = series_mean (int_col registered (group_of key k df)),
               m_cnt = series_mean (int_col cnt (group_of key k df))\<rparr>"
    by (auto simp: groupby_mean_def)
  have ne: "group_of key k df \<noteq> []"
    using k by (rule group_of_nonempty)
  show "gkey row \<in> key ` set df"
    using k by (simp add: row set_group_keys)
  show "group_of key (gkey row) df \<noteq> []"
    using ne by (simp add: row)
  show "m_casual row = Fin (arith_mean (map casual (group_of key (gkey row) df)))"
    using mean_int_col [OF ne] by (simp add: row)
  show "m_registered row = Fin (arith_mean (map registered (group_of key (gkey row) df)))"
    using mean_int_col [OF ne] by (simp add: row)
  show "m_cnt row = Fin (arith_mean (map cnt (group_of key (gkey row) df)))"
    using mean_int_col [OF ne] by (simp add: row)
qed

lemma groupby_mean_rows:
  "\<forall>row \<in> set (groupby_mean key df).
     group_of key (gkey row) df \<noteq> [] \<and>
     m_casual row = Fin (arith_mean (map casual (group_of key (gkey row) df))) \<and>
     m_registered row = Fin (arith_mean (map registered (group_of key (gkey row) df))) \<and>
     m_cnt row = Fin (arith_mean (map cnt (group_of key (gkey row) df)))"
  using groupby_mean_row [of _ key df] by simp

lemmas example_defs = loaded_def raw_record.extend_def row.fields_def

lemmas groupby_defs = groupby_mean_def group_keys_def group_of_def int_col_def
  series_mean_def series_sum_def

lemma loaded_raw:
  "dteday (loaded r) = dteday r" "yr (loaded r) = yr r" "mnth (loaded r) = mnth r"
  "hr (loaded r) = hr r" "weekday (loaded r) = weekday r" "weathersit (loaded r) = weathersit r"
  "casual (loaded r) = casual r" "registered (loaded r) = registered r" "cnt (loaded r) = cnt r"
  by (simp_all add: example_defs)

lemma loaded_columns:
  "ym (loaded r) = None" "cnt_lag1 (loaded r) = None" "cnt_lag2 (loaded r) = None"
  "casual_lag1 (loaded r) = None" "casual_lag2 (loaded r) = None"
  "registered_lag1 (loaded r) = None" "registered_lag2 (loaded r) = None"
  by (simp_all add: example_defs)

section \<open>The hourly pattern\<close>

lemma hourly_example_value:
  "create_hourly_patterns_df hourly_example =
     [\<lparr>gkey = 0, m_casual = Fin 1, m_registered = Fin 5, m_cnt = Fin 6\<rparr>,
      \<lparr>gkey = 8, m_casual = Fin (7 / 2), m_registered = Fin (33 / 2), m_cnt = Fin 20\<rparr>]"
  by (simp add: create_hourly_patterns_df_def groupby_defs hourly_example_def example_defs)

text \<open>
  C5. For every frame, \<^verbatim>\<open>create_hourly_patterns_df\<close> returns one row per value of
  \<^verbatim>\<open>hr\<close> that occurs in the frame and no other row: the keys of its rows are exactly the
  hours of the input, no key occurs twice, and the rows are in ascending order of the
  hour. The group of every row is not empty, and the row carries the arithmetic means of
  \<^verbatim>\<open>casual\<close>, \<^verbatim>\<open>registered\<close> and \<^verbatim>\<open>cnt\<close> over all records of the input with that hour.
\<close>

theorem hourly_pattern_rows:
  "set (map gkey (create_hourly_patterns_df df)) = hr ` set df \<and>
   distinct (map gkey (create_hourly_patterns_df df)) \<and>
   sorted (map gkey (create_hourly_patterns_df df)) \<and>
   (\<forall>row \<in> set (create_hourly_patterns_df df).
      filter (\<lambda>r. hr r = gkey row) df \<noteq> [] \<and>
      m_casual row = Fin (arith_mean (map casual (filter (\<lambda>r. hr r = gkey row) df))) \<and>
      m_registered row = Fin (arith_mean (map registered (filter (\<lambda>r. hr r = gkey row) df))) \<and>
      m_cnt row = Fin (arith_mean (map cnt (filter (\<lambda>r. hr r = gkey row) df))))"
  using groupby_mean_rows [of hr df]
  by (simp only: create_hourly_patterns_df_def gkey_groupby_mean set_group_keys
      distinct_group_keys sorted_group_keys simp_thms group_of_def)

theorem hourly_pattern_rows_witness:
  "map gkey (create_hourly_patterns_df hourly_example) = [0, 8] \<and>
   hr ` set hourly_example = {0, 8} \<and>
   map m_casual (create_hourly_patterns_df hourly_example) = [Fin 1, Fin (7 / 2)] \<and>
   map casual (filter (\<lambda>r. hr r = 8) hourly_example) = [3, 4] \<and>
   arith_mean [3, 4] = 7 / 2"
  using hourly_pattern_rows [of hourly_example]
  by (simp add: hourly_example_value)
    (simp add: hourly_example_def example_defs group_of_def arith_mean_def)

section \<open>The weekday and weather patterns\<close>

lemma weekday_example_value:
  "create_daily_patterns_df weekday_example =
     [\<lparr>gkey = 0, m_casual = Fin 15, m_registered = Fin 85, m_cnt = Fin 100,
       day_name = Some ''Sunday''\<rparr>,
      \<lparr>gkey = 1, m_casual = Fin 5, m_registered = Fin 45, m_cnt = Fin 50,
       day_name = Some ''Monday''\<rparr>]"
  by (simp add: create_daily_patterns_df_def groupby_defs weekday_example_def example_defs
      map_dict_def day_names_def)

lemma gkey_daily: "map gkey (create_daily_patterns_df df) = group_keys weekday df"
  by (simp add: create_daily_patterns_df_def comp_def gkey_groupby_mean [symmetric])

lemma map_dict_day_names:
  "map_dict day_names k =
     (if k = 0 then Some ''Sunday'' else if k = 1 then Some ''Monday''
      else if k = 2 then Some ''Tuesday'' else if k = 3 then Some ''Wednesday''
      else if k = 4 then Some ''Thursday'' else if k = 5 then Some ''Friday''
      else if k = 6 then Some ''Saturday'' else None)"
  by (simp add: map_dict_def day_names_def)

lemma daily_rows:
  "\<forall>row \<in> set (create_daily_patterns_df df).
      group_of weekday (gkey row) df \<noteq> [] \<and>
      m_casual row = Fin (arith_mean (map casual (group_of weekday (gkey row) df))) \<and>
      m_registered row = Fin (arith_mean (map registered (group_of weekday (gkey row) df))) \<and>
      m_cnt row = Fin (arith_mean (map cnt (group_of weekday (gkey row) df))) \<and>
      day_name row = map_dict day_names (gkey row)"
  using groupby_mean_rows [of weekday df]
  by (simp add: create_daily_patterns_df_def)

text \<open>
  C6. For every frame, \<^verbatim>\<open>create_daily_patterns_df\<close> groups the records by
  \<^verbatim>\<open>weekday\<close>: its keys are exactly the weekdays of the input, each once, ascending, and
  every row carries the means over the records of its weekday. The column \<^verbatim>\<open>day_name\<close>
  of a row is the label of its key under the fixed mapping 0: Sunday, 1: Monday,
  2: Tuesday, 3: Wednesday, 4: Thursday, 5: Friday, 6: Saturday. On the three records of
  the example (weekday 0 with counts 10, 90, 100 and 20, 80, 100; weekday 1 with counts
  5, 45, 50) the result is the row of key 0, label Sunday and means 15, 85, 100, followed
  by the row of key 1, label Monday and means 5, 45, 50.
\<close>

theorem weekday_pattern_labels:
  "set (map gkey (create_daily_patterns_df df)) = weekday ` set df \<and>
   distinct (map gkey (create_daily_patterns_df df)) \<and>
   sorted (map gkey (create_daily_patterns_df df)) \<and>
   (\<forall>row \<in> set (create_daily_patterns_df df).
      filter (\<lambda>r. weekday r = gkey row) df \<noteq> [] \<and>
      m_casual row = Fin (arith_mean (map casual (filter (\<lambda>r. weekday r = gkey row) df))) \<and>
      m_registered row = Fin (arith_mean (map registered (filter (\<lambda>r. weekday r = gkey row) df))) \<and>
      m_cnt row = Fin (arith_mean (map cnt (filter (\<lambda>r. weekday r = gkey row) df))) \<and>
      day_name row =
        (if gkey row = 0 then Some ''Sunday'' else if gkey row = 1 then Some ''Monday''
         else if gkey row = 2 then Some ''Tuesday'' else if gkey row = 3 then Some ''Wednesday''
         else if gkey row = 4 then Some ''Thursday'' else if gkey row = 5 then Some ''Friday''
         else if gkey row = 6 then Some ''Saturday'' else None)) \<and>
   create_daily_patterns_df weekday_example =
     [\<lparr>gkey = 0, m_casual = Fin 15, m_registered = Fin 85, m_cnt = Fin 100,
       day_name = Some ''Sunday''\<rparr>,
      \<lparr>gkey = 1, m_casual = Fin 5, m_registered = Fin 45, m_cnt = Fin 50,
       day_name = Some ''Monday''\<rparr>]"
  using daily_rows [of df]
  by (simp only: gkey_daily set_group_keys distinct_group_keys sorted_group_keys simp_thms
      map_dict_day_names weekday_example_value group_of_def)

theorem weekday_pattern_labels_witness:
  "weekday ` set weekday_example = {0, 1} \<and>
   map gkey (create_daily_patterns_df weekday_example) = [0, 1] \<and>
   map day_name (create_daily_patterns_df weekday_example) = [Some ''Sunday'', Some ''Monday''] \<and>
   map casual (filter (\<lambda>r. weekday r = 0) weekday_example) = [10, 20] \<and>
   arith_mean [10, 20] = 15"
  using weekday_pattern_labels [of weekday_example]
  by (simp add: weekday_example_value)
    (simp add: weekday_example_def example_defs group_of_def arith_mean_def)

lemma gkey_weather: "map gkey (create_weather_impact_df df) = group_keys weathersit df"
  by (simp add: create_weather_impact_df_def comp_def gkey_groupby_mean [symmetric])

lemma map_dict_weather_descs:
  "map_dict weather_descs k =
     (if k = 1 then Some ''Clear'' else if k = 2 then Some ''Mist + Cloudy''
      else if k = 3 then Some ''Light Snow/Rain'' else if k = 4 then Some ''Heavy Rain/Snow''
      else None)"
  by (simp add: map_dict_def weather_descs_def)

lemma weather_rows:
  "\<forall>row \<in> set (create_weather_impact_df df).
      group_of weathersit (gkey row) df \<noteq> [] \<and>
      m_casual row = Fin (arith_mean (map casual (group_of weathersit (gkey row) df))) \<and>
      m_registered row = Fin (arith_mean (map registered (group_of weathersit (gkey row) df))) \<and>
      m_cnt row = Fin (arith_mean (map cnt (group_of weathersit (gkey row) df))) \<and>
      weather_desc row = map_dict weather_descs (gkey row)"
  using groupby_mean_rows [of weathersit df]
  by (simp add: create_weather_impact_df_def)

lemma weather_example_value:
  "create_weather_impact_df weather_example =
     [\<lparr>gkey = 1, m_casual = Fin 5, m_registered = Fin 45, m_cnt = Fin 50,
       weather_desc = Some ''Clear''\<rparr>,
      \<lparr>gkey = 5, m_casual = Fin 10, m_registered = Fin 90, m_cnt = Fin 100,
       weather_desc = None\<rparr>]"
  by (simp add: create_weather_impact_df_def groupby_defs weather_example_def example_defs
      map_dict_def weather_descs_def)

text \<open>
  C7, as stated, fails. A record with \<^verbatim>\<open>weathersit = 5\<close> is grouped under its own key
  5, and nothing fails, but \<^verbatim>\<open>Series.map\<close> gives the unmapped key no label at all: the
  column \<^verbatim>\<open>weather_desc\<close> holds the missing value there, not a generic fallback label.
\<close>

theorem weather_unmapped_key_counterexample:
  "weathersit ` set weather_example = {5, 1} \<and>
   map gkey (create_weather_impact_df weather_example) = [1, 5] \<and>
   map weather_desc (create_weather_impact_df weather_example) = [Some ''Clear'', None] \<and>
   (\<forall>fallback. map weather_desc (create_weather_impact_df weather_example)
       \<noteq> [Some ''Clear'', Some fallback])"
  by (simp add: weather_example_value) (simp add: weather_example_def example_defs)

lemma count_list_distinct: "distinct xs \<Longrightarrow> x \<in> set xs \<Longrightarrow> count_list xs x = 1"
  by (induction xs) auto

text \<open>
  C7, amended. For every frame, every value of \<^verbatim>\<open>weathersit\<close> that occurs in it, inside
  or outside the labelled domain 1 to 4, is the key of exactly one row of
  \<^verbatim>\<open>create_weather_impact_df\<close>, which carries the means over the records of that key.
  The label mapping does not fail on a key outside 1 to 4: the row's \<^verbatim>\<open>weather_desc\<close>
  is the missing value. A key from 1 to 4 has a label.
\<close>

theorem weather_unmapped_key_missing:
  "(\<forall>r \<in> set df. count_list (map gkey (create_weather_impact_df df)) (weathersit r) = 1) \<and>
   (\<forall>row \<in> set (create_weather_impact_df df).
      filter (\<lambda>r. weathersit r = gkey row) df \<noteq> [] \<and>
      m_casual row = Fin (arith_mean (map casual (filter (\<lambda>r. weathersit r = gkey row) df))) \<and>
      m_registered row = Fin (arith_mean (map registered (filter (\<lambda>r. weathersit r = gkey row) df))) \<and>
      m_cnt row = Fin (arith_mean (map cnt (filter (\<lambda>r. weathersit r = gkey row) df))) \<and>
      (gkey row \<notin> {1, 2, 3, 4} \<longrightarrow> weather_desc row = None) \<and>
      (gkey row \<in> {1, 2, 3, 4} \<longrightarrow> weather_desc row \<noteq> None))"
proof -
  have "\<forall>r \<in> set df. count_list (map gkey (create_weather_impact_df df)) (weathersit r) = 1"
    by (simp add: gkey_weather count_list_distinct distinct_group_keys set_group_keys)
  moreover have "\<forall>row \<in> set (create_weather_impact_df df).
      filter (\<lambda>r. weathersit r = gkey row) df \<noteq> [] \<and>
      m_casual row = Fin (arith_mean (map casual (filter (\<lambda>r. weathersit r = gkey row) df))) \<and>
      m_registered row = Fin (arith_mean (map registered (filter (\<lambda>r. weathersit r = gkey row) df))) \<and>
      m_cnt row = Fin (arith_mean (map cnt (filter (\<lambda>r. weathersit r = gkey row) df))) \<and>
      (gkey row \<notin> {1, 2, 3, 4} \<longrightarrow> weather_desc row = None) \<and>
      (gkey row \<in> {1, 2, 3, 4} \<longrightarrow> weather_desc row \<noteq> None)"
    using weather_rows [of df] by (simp add: map_dict_weather_descs group_of_def)
  ultimately show ?thesis by simp
qed

lemma weather_mixed_example_value:
  "create_weather_impact_df weather_mixed_example =
     [\<lparr>gkey = 1, m_casual = Fin 5, m_registered = Fin 45, m_cnt = Fin 50,
       weather_desc = Some ''Clear''\<rparr>,
      \<lparr>gkey = 3, m_casual = Fin 1, m_registered = Fin 2, m_cnt = Fin 3,
       weather_desc = Some ''Light Snow/Rain''\<rparr>,
      \<lparr>gkey = 5, m_casual = Fin 20, m_registered = Fin 80, m_cnt = Fin 100,
       weather_desc = None\<rparr>]"
  by (simp add: create_weather_impact_df_def groupby_defs weather_mixed_example_def loaded_raw
      map_dict_def weather_descs_def)

theorem weather_unmapped_key_missing_witness:
  "map weathersit weather_mixed_example = [5, 1, 5, 3, 5] \<and>
   count_list (map gkey (create_weather_impact_df weather_mixed_example)) 5 = 1 \<and>
   map gkey (create_weather_impact_df weather_mixed_example) = [1, 3, 5] \<and>
   map m_cnt (create_weather_impact_df weather_mixed_example) = [Fin 50, Fin 3, Fin 100] \<and>
   map weather_desc (create_weather_impact_df weather_mixed_example) =
     [Some ''Clear'', Some ''Light Snow/Rain'', None] \<and>
   map cnt (filter (\<lambda>r. weathersit r = 5) weather_mixed_example) = [100, 90, 110] \<and>
   arith_mean [100, 90, 110] = 100"
  using weather_unmapped_key_missing [of weather_mixed_example]
  by (simp add: weather_mixed_example_value)
    (simp add: weather_mixed_example_def loaded_raw arith_mean_def)

section \<open>The monthly trend\<close>

lemma monthly_example_value:
  "monthly_trends monthly_example =
     [\<lparr>gkey = (0, 2), m_casual = Fin 7, m_registered = Fin 45, m_cnt = Fin 52\<rparr>,
      \<lparr>gkey = (0, 12), m_casual = Fin (11 / 2), m_registered = Fin (91 / 2), m_cnt = Fin 51\<rparr>,
      \<lparr>gkey = (1, 1), m_casual = Fin 10, m_registered = Fin 90, m_cnt = Fin 100\<rparr>]"
  by (simp add: monthly_trends_def groupby_defs monthly_example_def example_defs)

text \<open>
  C8. For every frame, in whatever order its rows are, the monthly trend of the page
  groups the records by the pair of \<^verbatim>\<open>yr\<close> and \<^verbatim>\<open>mnth\<close>: its keys are exactly the
  pairs that occur, every row carries the means over the records of its pair, and the
  rows are in strictly ascending chronological order, by \<^verbatim>\<open>yr\<close> first and by \<^verbatim>\<open>mnth\<close>
  within a year.
\<close>

theorem monthly_trend_sorted:
  "set (map gkey (monthly_trends df)) = (\<lambda>r. (yr r, mnth r)) ` set df \<and>
   sorted_wrt (\<lambda>a b. fst (gkey a) < fst (gkey b) \<or>
                  (fst (gkey a) = fst (gkey b) \<and> snd (gkey a) < snd (gkey b)))
     (monthly_trends df) \<and>
   (\<forall>row \<in> set (monthly_trends df).
      filter (\<lambda>r. yr r = fst (gkey row) \<and> mnth r = snd (gkey row)) df \<noteq> [] \<and>
      m_casual row = Fin (arith_mean (map casual (filter (\<lambda>r. yr r = fst (gkey row) \<and> mnth r = snd (gkey row)) df))) \<and>
      m_registered row =
        Fin (arith_mean (map registered (filter (\<lambda>r. yr r = fst (gkey row) \<and> mnth r = snd (gkey row)) df))) \<and>
      m_cnt row = Fin (arith_mean (map cnt (filter (\<lambda>r. yr r = fst (gkey row) \<and> mnth r = snd (gkey row)) df))))"
proof -
  have "sorted_wrt (<) (map gkey (monthly_trends df))"
    by (simp add: monthly_trends_def gkey_groupby_mean strict_sorted_iff
        sorted_group_keys distinct_group_keys)
  then have "sorted_wrt (\<lambda>a b. gkey a < gkey b) (monthly_trends df)"
    by (simp add: sorted_wrt_map)
  then have "sorted_wrt (\<lambda>a b. fst (gkey a) < fst (gkey b) \<or>
                  (fst (gkey a) = fst (gkey b) \<and> snd (gkey a) < snd (gkey b)))
     (monthly_trends df)"
    by (rule sorted_wrt_mono_rel [rotated]) (auto simp: less_prod_def)
  moreover have pair: "(\<lambda>r::row. (yr r, mnth r) = k) = (\<lambda>r. yr r = fst k \<and> mnth r = snd k)"
    for k :: "int \<times> int"
    by (auto simp: prod_eq_iff)
  ultimately show ?thesis
    using groupby_mean_rows [of "\<lambda>r. (yr r, mnth r)" df]
    by (simp add: monthly_trends_def gkey_groupby_mean set_group_keys pair group_of_def)
qed

theorem monthly_trend_sorted_witness:
  "map (\<lambda>r. (yr r, mnth r)) monthly_example = [(1, 1), (0, 12), (0, 2), (0, 12)] \<and>
   map gkey (monthly_trends monthly_example) = [(0, 2), (0, 12), (1, 1)] \<and>
   map m_casual (monthly_trends monthly_example) = [Fin 7, Fin (11 / 2), Fin 10]"
  using monthly_trend_sorted [of monthly_example]
  by (simp add: monthly_example_value) (simp add: monthly_example_def example_defs)

section \<open>The lag table\<close>

lemma length_shift_neg: "length (shift_neg n xs) = length xs"
  by (simp add: shift_neg_def)

lemma nth_shift_neg:
  "i < length xs \<Longrightarrow> shift_neg n xs ! i = (if i + n < length xs then xs ! (i + n) else NaN)"
  by (auto simp: shift_neg_def nth_append add.commute intro!: nth_replicate)

lemma length_int_col: "length (int_col c df) = length df"
  by (simp add: int_col_def)

lemma nth_shift_int_col:
  "i < length df \<Longrightarrow> shift_neg n (int_col c df) ! i = lag_value c df (i + n)"
  by (simp add: nth_shift_neg length_int_col lag_value_def) (simp add: int_col_def)

lemma length_assign: "length col = length df \<Longrightarrow> length (assign upd col df) = length df"
  by (simp add: assign_def)

lemma nth_assign:
  "i < length df \<Longrightarrow> length col = length df \<Longrightarrow>
   assign upd col df ! i = upd (\<lambda>_. Some (col ! i)) (df ! i)"
  by (simp add: assign_def)

lemma assign_shift:
  assumes "length df' = length df" and "\<forall>j < length df. c (df' ! j) = c (df ! j)"
  shows "assign upd (shift_neg n (int_col c df')) df' =
         map (\<lambda>i. upd (\<lambda>_. Some (lag_value c df (i + n))) (df' ! i)) [0..<length df]"
proof (rule nth_equalityI)
  show "length (assign upd (shift_neg n (int_col c df')) df') =
        length (map (\<lambda>i. upd (\<lambda>_. Some (lag_value c df (i + n))) (df' ! i)) [0..<length df])"
    by (simp add: length_assign length_shift_neg length_int_col assms)
next
  fix i
  assume "i < length (assign upd (shift_neg n (int_col c df')) df')"
  then have i: "i < length df"
    by (simp add: length_assign length_shift_neg length_int_col assms)
  have "lag_value c df' (i + n) = lag_value c df (i + n)"
    using assms by (simp add: lag_value_def)
  then show "assign upd (shift_neg n (int_col c df')) df' ! i =
        map (\<lambda>i. upd (\<lambda>_. Some (lag_value c df (i + n))) (df' ! i)) [0..<length df] ! i"
    using i by (simp add: nth_assign length_shift_neg length_int_col assms nth_shift_int_col)
qed

lemma lag_frame: "fst (create_lag_analysis_df df) = map (lag_row df) [0..<length df]"
proof -
  define df1 where "df1 = assign cnt_lag1_update (shift_neg 1 (int_col cnt df)) df"
  define df2 where "df2 = assign cnt_lag2_update (shift_neg 2 (int_col cnt df1)) df1"
  define df3 where "df3 = assign casual_lag1_update (shift_neg 1 (int_col casual df2)) df2"
  define df4 where "df4 = assign casual_lag2_update (shift_neg 2 (int_col casual df3)) df3"
  define df5 where "df5 = assign registered_lag1_update (shift_neg 1 (int_col registered df4)) df4"
  define df6 where "df6 = assign registered_lag2_update (shift_neg 2 (int_col registered df5)) df5"
  have fst: "fst (create_lag_analysis_df df) = df6"
    by (simp add: create_lag_analysis_df_def Let_def df1_def df2_def df3_def df4_def df5_def df6_def)
  have 1: "df1 = map (\<lambda>i. (df ! i)\<lparr>cnt_lag1 := Some (lag_value cnt df (i + 1))\<rparr>) [0..<length df]"
    unfolding df1_def by (rule assign_shift) simp_all
  have 2: "df2 = map (\<lambda>i. (df1 ! i)\<lparr>cnt_lag2 := Some (lag_value cnt df (i + 2))\<rparr>) [0..<length df]"
    unfolding df2_def by (rule assign_shift) (simp_all add: 1)
  have 3: "df3 = map (\<lambda>i. (df2 ! i)\<lparr>casual_lag1 := Some (lag_value casual df (i + 1))\<rparr>) [0..<length df]"
    unfolding df3_def by (rule assign_shift) (simp_all add: 1 2)
  have 4: "df4 = map (\<lambda>i. (df3 ! i)\<lparr>casual_lag2 := Some (lag_value casual df (i + 2))\<rparr>) [0..<length df]"
    unfolding df4_def by (rule assign_shift) (simp_all add: 1 2 3)
  have 5: "df5 = map (\<lambda>i. (df4 ! i)\<lparr>registered_lag1 := Some (lag_value registered df (i + 1))\<rparr>) [0..<length df]"
    unfolding df5_def by (rule assign_shift) (simp_all add: 1 2 3 4)
  have 6: "df6 = map (\<lambda>i. (df5 ! i)\<lparr>registered_lag2 := Some (lag_value registered df (i + 2))\<rparr>) [0..<length df]"
    unfolding df6_def by (rule assign_shift) (simp_all add: 1 2 3 4 5)
  have "df6 = map (lag_row df) [0..<length df]"
    by (subst 6, rule map_cong [OF refl]) (simp add: 1 2 3 4 5 lag_row_def)
  with fst show ?thesis by simp
qed

lemma lag_result: "snd (create_lag_analysis_df df) = filter (\<lambda>r. 3 \<le> weathersit r) (fst (create_lag_analysis_df df))"
  by (simp add: create_lag_analysis_df_def Let_def)

lemma weathersit_lag_row: "weathersit (lag_row df i) = weathersit (df ! i)"
  by (simp add: lag_row_def)


lemma lag_rows:
  "snd (create_lag_analysis_df df) =
     map (lag_row df) (filter (\<lambda>i. 3 \<le> weathersit (df ! i)) [0..<length df])"
  by (simp add: lag_result lag_frame filter_map comp_def weathersit_lag_row)

lemma lag_example_idx:
  "filter (\<lambda>i. 3 \<le> weathersit (lag_example ! i)) [0..<length lag_example] = [3]"
  by (simp add: lag_example_def loaded_raw)

lemma lag_example_row:
  "lag_row lag_example 3 =
     (loaded \<lparr>dteday = (2011, 1, 4), yr = 0, mnth = 1, hr = 0, weekday = 2, weathersit = 3,
              casual = 108, registered = 1454, cnt = 1562\<rparr>)
       \<lparr>cnt_lag1 := Some (Fin 1600), cnt_lag2 := Some NaN,
        casual_lag1 := Some (Fin 82), casual_lag2 := Some NaN,
        registered_lag1 := Some (Fin 1518), registered_lag2 := Some NaN\<rparr>"
  by (simp add: lag_row_def lag_value_def lag_example_def loaded_raw)

text \<open>
  C4. For every frame of daily records (sorted by date or not: the function works by
  position), \<^verbatim>\<open>create_lag_analysis_df\<close> returns exactly the records at the positions
  \<open>i\<close> with \<^verbatim>\<open>weathersit >= 3\<close>, in the order of the input, each with the columns
  \<^verbatim>\<open>cnt_lag1\<close>, \<^verbatim>\<open>casual_lag1\<close>, \<^verbatim>\<open>registered_lag1\<close> taken from position \<open>i + 1\<close> and
  \<^verbatim>\<open>cnt_lag2\<close>, \<^verbatim>\<open>casual_lag2\<close>, \<^verbatim>\<open>registered_lag2\<close> from position \<open>i + 2\<close> of the full
  input, and with the missing marker \<open>NaN\<close> where the input has no such position. On five
  days of which only the fourth has \<^verbatim>\<open>weathersit = 3\<close>, the result is the one row of day
  4, with the counts of day 5 as lag 1 and lag 2 missing.
\<close>

theorem bad_weather_lag_rows:
  "snd (create_lag_analysis_df df) =
     map (lag_row df) (filter (\<lambda>i. 3 \<le> weathersit (df ! i)) [0..<length df]) \<and>
   snd (create_lag_analysis_df lag_example) =
     [(loaded \<lparr>dteday = (2011, 1, 4), yr = 0, mnth = 1, hr = 0, weekday = 2, weathersit = 3,
              casual = 108, registered = 1454, cnt = 1562\<rparr>)
       \<lparr>cnt_lag1 := Some (Fin 1600), cnt_lag2 := Some NaN,
        casual_lag1 := Some (Fin 82), casual_lag2 := Some NaN,
        registered_lag1 := Some (Fin 1518), registered_lag2 := Some NaN\<rparr>]"
proof (intro conjI)
  show "snd (create_lag_analysis_df df) =
     map (lag_row df) (filter (\<lambda>i. 3 \<le> weathersit (df ! i)) [0..<length df])"
    by (rule lag_rows)
  show "snd (create_lag_analysis_df lag_example) =
     [(loaded \<lparr>dteday = (2011, 1, 4), yr = 0, mnth = 1, hr = 0, weekday = 2, weathersit = 3,
              casual = 108, registered = 1454, cnt = 1562\<rparr>)
       \<lparr>cnt_lag1 := Some (Fin 1600), cnt_lag2 := Some NaN,
        casual_lag1 := Some (Fin 82), casual_lag2 := Some NaN,
        registered_lag1 := Some (Fin 1518), registered_lag2 := Some NaN\<rparr>]"
    by (simp only: lag_rows lag_example_idx lag_example_row list.map)
qed

lemma lag_last_example_idx:
  "filter (\<lambda>i. 3 \<le> weathersit (lag_last_example ! i)) [0..<length lag_last_example] = [2]"
  by (simp add: lag_last_example_def loaded_raw)

lemma lag_columns_lag_row:
  "cnt_lag1 (lag_row df i) = Some (lag_value cnt df (i + 1))"
  "cnt_lag2 (lag_row df i) = Some (lag_value cnt df (i + 2))"
  "casual_lag1 (lag_row df i) = Some (lag_value casual df (i + 1))"
  "casual_lag2 (lag_row df i) = Some (lag_value casual df (i + 2))"
  "registered_lag1 (lag_row df i) = Some (lag_value registered df (i + 1))"
  "registered_lag2 (lag_row df i) = Some (lag_value registered df (i + 2))"
  by (simp_all add: lag_row_def)

lemma raw_lag_row:
  "dteday (lag_row df i) = dteday (df ! i)" "cnt (lag_row df i) = cnt (df ! i)"
  "casual (lag_row df i) = casual (df ! i)" "registered (lag_row df i) = registered (df ! i)"
  by (simp_all add: lag_row_def)

theorem bad_weather_lag_rows_witness:
  "filter (\<lambda>i. 3 \<le> weathersit (lag_last_example ! i)) [0..<length lag_last_example] = [2] \<and>
   map dteday (snd (create_lag_analysis_df lag_last_example)) = [(2011, 1, 26)] \<and>
   map cnt_lag1 (snd (create_lag_analysis_df lag_last_example)) = [Some NaN] \<and>
   map cnt_lag2 (snd (create_lag_analysis_df lag_last_example)) = [Some NaN] \<and>
   map casual_lag1 (snd (create_lag_analysis_df lag_last_example)) = [Some NaN] \<and>
   map registered_lag2 (snd (create_lag_analysis_df lag_last_example)) = [Some NaN]"
  using bad_weather_lag_rows [of lag_last_example]
  by (simp add: lag_last_example_idx lag_columns_lag_row raw_lag_row lag_value_def)
    (simp add: lag_last_example_def loaded_raw)

lemma ym_monthly_frame:
  "map ym (fst (create_monthly_trends_df df)) = map (\<lambda>r. Some (to_period_M (dteday r))) df"
  by (simp add: create_monthly_trends_df_def Let_def comp_def)

lemma cnt_lag1_frame:
  "map cnt_lag1 (fst (create_lag_analysis_df df)) =
     map (\<lambda>i. Some (lag_value cnt df (i + 1))) [0..<length df]"
  by (simp add: lag_frame lag_columns_lag_row comp_def)

lemma lag_last_example_columns:
  "map cnt_lag1 lag_last_example = [None, None, None]"
  "map ym lag_last_example = [None, None, None]"
  by (simp_all add: lag_last_example_def loaded_columns)

lemma lag_last_example_cnt_lag1:
  "map cnt_lag1 (fst (create_lag_analysis_df lag_last_example)) =
     [Some (Fin 1985), Some (Fin 506), Some NaN]"
  by (simp add: cnt_lag1_frame lag_value_def) (simp add: lag_last_example_def loaded_raw)

lemma lag_last_example_ym:
  "map ym (fst (create_monthly_trends_df lag_last_example)) =
     [Some (2011, 1), Some (2011, 1), Some (2011, 1)]"
  by (simp add: ym_monthly_frame) (simp add: lag_last_example_def loaded_raw to_period_M_def)

text \<open>
  C3, as stated, fails: two of the operations change the frame they are given.
  After \<^verbatim>\<open>create_lag_analysis_df\<close> the input frame has the six lag columns, and after
  \<^verbatim>\<open>create_monthly_trends_df\<close> it has the column \<^verbatim>\<open>ym\<close>; a frame as loaded has
  neither.
\<close>

theorem input_frame_changed_counterexample:
  "fst (create_lag_analysis_df lag_last_example) \<noteq> lag_last_example \<and>
   map cnt_lag1 lag_last_example = [None, None, None] \<and>
   map cnt_lag1 (fst (create_lag_analysis_df lag_last_example)) =
     [Some (Fin 1985), Some (Fin 506), Some NaN] \<and>
   fst (create_monthly_trends_df lag_last_example) \<noteq> lag_last_example \<and>
   map ym lag_last_example = [None, None, None] \<and>
   map ym (fst (create_monthly_trends_df lag_last_example)) =
     [Some (2011, 1), Some (2011, 1), Some (2011, 1)]"
proof -
  have "map cnt_lag1 (fst (create_lag_analysis_df lag_last_example)) \<noteq> map cnt_lag1 lag_last_example"
    by (simp only: lag_last_example_cnt_lag1 lag_last_example_columns) simp
  then have a: "fst (create_lag_analysis_df lag_last_example) \<noteq> lag_last_example"
    by (rule contrapos_nn) (erule arg_cong)
  have "map ym (fst (create_monthly_trends_df lag_last_example)) \<noteq> map ym lag_last_example"
    by (simp only: lag_last_example_ym lag_last_example_columns) simp
  then have b: "fst (create_monthly_trends_df lag_last_example) \<noteq> lag_last_example"
    by (rule contrapos_nn) (erule arg_cong)
  show ?thesis
    using a b
    by (simp only: lag_last_example_cnt_lag1 lag_last_example_ym lag_last_example_columns simp_thms)
qed

lemma truncate_lag_row: "raw_record.truncate (lag_row df i) = raw_record.truncate (df ! i)"
  by (simp add: lag_row_def raw_record.truncate_def)

lemma ym_lag_row: "ym (lag_row df i) = ym (df ! i)"
  by (simp add: lag_row_def)

lemma monthly_frame:
  "fst (create_monthly_trends_df df) = map (\<lambda>r. r\<lparr>ym := Some (to_period_M (dteday r))\<rparr>) df"
  by (simp add: create_monthly_trends_df_def Let_def)

lemma run_operation_raw:
  "map raw_record.truncate (fst (run_operation opn df)) = map raw_record.truncate df"
proof (cases opn)
  case Monthly_helper
  then show ?thesis
    by (simp add: monthly_frame raw_record.truncate_def comp_def)
next
  case Bad_weather_lag
  have "map raw_record.truncate (fst (create_lag_analysis_df df)) = map raw_record.truncate df"
    by (rule nth_equalityI) (simp_all add: lag_frame truncate_lag_row)
  with Bad_weather_lag show ?thesis by simp
qed simp_all

text \<open>
  C3, amended. Let an operation be called on the frame \<open>df\<close> at an address of the
  store. The call returns a new address, one past the addresses in use, so the derived
  view is a new table, distinct from the input and from every other table; no table at
  another address changes. The frame at the input's address keeps its records, in number
  and order, and every raw field of every record. After \<^verbatim>\<open>create_hourly_patterns_df\<close>,
  \<^verbatim>\<open>create_daily_patterns_df\<close>, \<^verbatim>\<open>create_weather_impact_df\<close> and the monthly grouping
  of the page it is \<open>df\<close> unchanged. After \<^verbatim>\<open>create_monthly_trends_df\<close> it is \<open>df\<close>
  with the column \<^verbatim>\<open>ym\<close> set to the month period of \<^verbatim>\<open>dteday\<close>, and after
  \<^verbatim>\<open>create_lag_analysis_df\<close> it is \<open>df\<close> with the six lag columns set in every row.
\<close>

theorem operations_frame_effect:
  assumes "a < length s" and "s ! a = Frame df"
  shows "\<exists>s' df'. call_operation opn a s = Some (length s, s') \<and>
           length s \<noteq> a \<and>
           length s' = length s + 1 \<and>
           (\<forall>b < length s. b \<noteq> a \<longrightarrow> s' ! b = s ! b) \<and>
           s' ! a = Frame df' \<and>
           map raw_record.truncate df' = map raw_record.truncate df \<and>
           (opn \<in> {Hourly_pattern, Weekday_pattern, Weather_pattern, Monthly_trend}
              \<longrightarrow> df' = df) \<and>
           (opn = Monthly_helper
              \<longrightarrow> df' = map (\<lambda>r. r\<lparr>ym := Some (to_period_M (dteday r))\<rparr>) df) \<and>
           (opn = Bad_weather_lag \<longrightarrow> df' = map (lag_row df) [0..<length df]) \<and>
           s' ! length s =
             (case opn of
                Hourly_pattern \<Rightarrow> Hourly_view (create_hourly_patterns_df df)
              | Weekday_pattern \<Rightarrow> Daily_view (create_daily_patterns_df df)
              | Weather_pattern \<Rightarrow> Weather_view (create_weather_impact_df df)
              | Monthly_trend \<Rightarrow> Monthly_view (monthly_trends df)
              | Monthly_helper \<Rightarrow> Trend_view (snd (create_monthly_trends_df df))
              | Bad_weather_lag \<Rightarrow> Frame (snd (create_lag_analysis_df df)))"
proof -
  let ?s' = "s[a := Frame (fst (run_operation opn df))] @ [snd (run_operation opn df)]"
  let ?df' = "fst (run_operation opn df)"
  have call: "call_operation opn a s = Some (length s, ?s')"
    using assms by (simp add: call_operation_def)
  have len: "length ?s' = length s + 1"
    by simp
  have others: "\<forall>b < length s. b \<noteq> a \<longrightarrow> ?s' ! b = s ! b"
    by (simp add: nth_append)
  have at_a: "?s' ! a = Frame ?df'"
    using assms(1) by (simp add: nth_append)
  have view: "?s' ! length s = snd (run_operation opn df)"
    by (simp add: nth_append)
  have pure: "opn \<in> {Hourly_pattern, Weekday_pattern, Weather_pattern, Monthly_trend}
      \<longrightarrow> ?df' = df"
    by auto
  have monthly: "opn = Monthly_helper
      \<longrightarrow> ?df' = map (\<lambda>r. r\<lparr>ym := Some (to_period_M (dteday r))\<rparr>) df"
    by (simp add: monthly_frame)
  have lag: "opn = Bad_weather_lag \<longrightarrow> ?df' = map (lag_row df) [0..<length df]"
    by (simp add: lag_frame)
  have views: "snd (run_operation opn df) =
             (case opn of
                Hourly_pattern \<Rightarrow> Hourly_view (create_hourly_patterns_df df)
              | Weekday_pattern \<Rightarrow> Daily_view (create_daily_patterns_df df)
              | Weather_pattern \<Rightarrow> Weather_view (create_weather_impact_df df)
              | Monthly_trend \<Rightarrow> Monthly_view (monthly_trends df)
              | Monthly_helper \<Rightarrow> Trend_view (snd (create_monthly_trends_df df))
              | Bad_weather_lag \<Rightarrow> Frame (snd (create_lag_analysis_df df)))"
    by (cases opn) simp_all
  have fresh: "length s \<noteq> a"
    using assms(1) by simp
  show ?thesis
    using call fresh len others at_a run_operation_raw [of opn df] pure monthly lag view
    unfolding views by blast
qed

theorem operations_frame_effect_witness:
  "0 < length [Frame lag_last_example] \<and>
   (\<exists>s'. call_operation Bad_weather_lag 0 [Frame lag_last_example] = Some (1, s') \<and>
      length s' = 2 \<and>
      s' ! 0 = Frame (map (lag_row lag_last_example) [0..<length lag_last_example]) \<and>
      s' ! 1 = Frame (snd (create_lag_analysis_df lag_last_example)))"
  using operations_frame_effect [of 0 "[Frame lag_last_example]" lag_last_example Bad_weather_lag]
  by auto


section \<open>The yearly growth\<close>

lemma group_keys_year:
  "filter (\<lambda>k. fst k = y) (group_keys (\<lambda>r. (yr r, mnth r)) df) = map (Pair y) (months_of_year y df)"
proof (rule sorted_distinct_set_unique)
  show "sorted (filter (\<lambda>k. fst k = y) (group_keys (\<lambda>r. (yr r, mnth r)) df))"
    by (rule sorted_wrt_filter) (rule sorted_group_keys)
  show "distinct (filter (\<lambda>k. fst k = y) (group_keys (\<lambda>r. (yr r, mnth r)) df))"
    by (rule distinct_filter) (rule distinct_group_keys)
  have "sorted (months_of_year y df)"
    by (simp add: months_of_year_def)
  then show "sorted (map (Pair y) (months_of_year y df))"
    by (simp add: sorted_map)
  show "distinct (map (Pair y) (months_of_year y df))"
    by (simp add: distinct_map months_of_year_def inj_on_def)
  show "set (filter (\<lambda>k. fst k = y) (group_keys (\<lambda>r. (yr r, mnth r)) df)) =
        set (map (Pair y) (months_of_year y df))"
    by (auto simp: set_group_keys months_of_year_def)
qed

lemma year_rows:
  "filter (\<lambda>m. fst (gkey m) = y) (monthly_trends df) =
     map (\<lambda>k. \<lparr>gkey = k,
               m_casual = series_mean (int_col casual (group_of (\<lambda>r. (yr r, mnth r)) k df)),
               m_registered = series_mean (int_col registered (group_of (\<lambda>r. (yr r, mnth r)) k df)),
               m_cnt = series_mean (int_col cnt (group_of (\<lambda>r. (yr r, mnth r)) k df))\<rparr>)
         (map (Pair y) (months_of_year y df))"
  by (simp add: monthly_trends_def groupby_mean_def filter_map comp_def group_keys_year
      del: map_map)

lemma group_of_year_month:
  "group_of (\<lambda>r. (yr r, mnth r)) (y, m) df = filter (\<lambda>r. yr r = y \<and> mnth r = m) df"
  by (simp add: group_of_def)

lemma year_column:
  "series_mean (map m_casual (filter (\<lambda>m. fst (gkey m) = y) (monthly_trends df))) =
     year_monthly_means_mean casual y df"
  "series_mean (map m_registered (filter (\<lambda>m. fst (gkey m) = y) (monthly_trends df))) =
     year_monthly_means_mean registered y df"
  by (simp_all add: year_rows comp_def group_of_year_month year_monthly_means_mean_def)

text \<open>
  C1, amended. For every frame, the yearly growth of \<^verbatim>\<open>casual\<close> and of \<^verbatim>\<open>registered\<close>
  is (mean of year 1 / mean of year 0 - 1) * 100, where the mean of a year is the mean of
  the monthly means of that year, one for each month of the year that occurs in the
  frame: the growth is computed from the rows of the monthly trend, not from the records.
\<close>

theorem growth_is_mean_of_monthly_means:
  "pertumbuhan_tahunan (monthly_trends df) =
     [(''casual'', growth_pct (year_monthly_means_mean casual 1 df)
                              (year_monthly_means_mean casual 0 df)),
      (''registered'', growth_pct (year_monthly_means_mean registered 1 df)
                                  (year_monthly_means_mean registered 0 df))]"
  by (simp add: pertumbuhan_tahunan_def yoy_def year_column growth_pct_def)

lemma growth_example_trends:
  "monthly_trends growth_example =
     [\<lparr>gkey = (0, 1), m_casual = Fin 10, m_registered = Fin 90, m_cnt = Fin 100\<rparr>,
      \<lparr>gkey = (1, 1), m_casual = Fin 10, m_registered = Fin 90, m_cnt = Fin 100\<rparr>,
      \<lparr>gkey = (1, 2), m_casual = Fin 40, m_registered = Fin 60, m_cnt = Fin 100\<rparr>]"
  by (simp add: monthly_trends_def groupby_defs growth_example_def loaded_raw)

lemma growth_example_value:
  "pertumbuhan_tahunan (monthly_trends growth_example) =
     [(''casual'', Fin 150), (''registered'', Fin (- (50 / 3)))]"
  by (simp add: growth_example_trends pertumbuhan_tahunan_def yoy_def series_mean_def
      series_sum_def fsub_def)

lemma growth_example_records:
  "growth_pct (year_records_mean casual 1 growth_example)
              (year_records_mean casual 0 growth_example) = Fin 100"
  by (simp add: growth_pct_def year_records_mean_def growth_example_def loaded_raw int_col_def
      series_mean_def series_sum_def fsub_def)

text \<open>
  C1, as stated, fails. With one record of January in year 0 (10 casual rentals) and, in
  year 1, two records of January (10 each) and one of February (40), the growth of
  \<^verbatim>\<open>casual\<close> is 150 percent: the means of the months of year 1 are 10 and 40, their mean
  is 25. The mean over all records of year 1 is 20, which would give 100 percent.
\<close>

theorem growth_all_records_counterexample:
  "map_of (pertumbuhan_tahunan (monthly_trends growth_example)) ''casual'' = Some (Fin 150) \<and>
   growth_pct (year_records_mean casual 1 growth_example)
              (year_records_mean casual 0 growth_example) = Fin 100 \<and>
   map_of (pertumbuhan_tahunan (monthly_trends growth_example)) ''casual'' \<noteq>
     Some (growth_pct (year_records_mean casual 1 growth_example)
                      (year_records_mean casual 0 growth_example))"
  by (simp add: growth_example_value growth_example_records)

theorem growth_is_mean_of_monthly_means_witness:
  "months_of_year 1 growth_example = [1, 2] \<and>
   year_monthly_means_mean casual 1 growth_example = Fin 25 \<and>
   year_monthly_means_mean casual 0 growth_example = Fin 10 \<and>
   growth_pct (Fin 25) (Fin 10) = Fin 150 \<and>
   map_of (pertumbuhan_tahunan (monthly_trends growth_example)) ''casual'' = Some (Fin 150)"
proof -
  have m: "months_of_year 1 growth_example = [1, 2]" "months_of_year 0 growth_example = [1]"
    by (simp_all add: months_of_year_def growth_example_def loaded_raw)
  have y: "year_monthly_means_mean casual 1 growth_example = Fin 25"
    "year_monthly_means_mean casual 0 growth_example = Fin 10"
    by (simp_all add: year_monthly_means_mean_def m)
      (simp_all add: growth_example_def loaded_raw int_col_def series_mean_def series_sum_def)
  show ?thesis
    using growth_is_mean_of_monthly_means [of growth_example]
    by (simp add: m y growth_pct_def fsub_def)
qed

lemma zero_base_example_trends:
  "monthly_trends zero_base_example =
     [\<lparr>gkey = (0, 1), m_casual = Fin 0, m_registered = Fin 90, m_cnt = Fin 90\<rparr>,
      \<lparr>gkey = (1, 1), m_casual = Fin 10, m_registered = Fin 90, m_cnt = Fin 100\<rparr>]"
  by (simp add: monthly_trends_def groupby_defs zero_base_example_def loaded_raw)

lemma zero_base_example_means:
  "series_mean (map m_casual (filter (\<lambda>m. fst (gkey m) = 0) (monthly_trends zero_base_example)))
     = Fin 0"
  "series_mean (map m_casual (filter (\<lambda>m. fst (gkey m) = 1) (monthly_trends zero_base_example)))
     = Fin 10"
  by (simp_all add: zero_base_example_trends series_mean_def series_sum_def)

text \<open>
  C2, as stated, fails. When the mean of year 0 is zero and the mean of year 1 is
  positive, the growth is positive infinity: the source divides two float64 values with no
  guard, numpy warns and returns \<^verbatim>\<open>inf\<close>.
\<close>

theorem growth_zero_base_counterexample:
  "series_mean (map m_casual (filter (\<lambda>m. fst (gkey m) = 0) (monthly_trends zero_base_example)))
     = Fin 0 \<and>
   year_records_mean casual 0 zero_base_example = Fin 0 \<and>
   map_of (pertumbuhan_tahunan (monthly_trends zero_base_example)) ''casual'' = Some PInf"
  by (simp add: zero_base_example_means pertumbuhan_tahunan_def yoy_def fsub_def signed_inf_def)
    (simp add: year_records_mean_def zero_base_example_def loaded_raw int_col_def
      series_mean_def series_sum_def)

text \<open>
  C2, amended. Whenever the mean of year 0 of a column of the monthly trend is zero, the
  growth of that column is a value of the dict (nothing is raised) and is never a finite
  number, so never zero: it is \<open>NaN\<close> when the mean of year 1 is zero or is itself \<open>NaN\<close>
  (no row of year 1), positive infinity when the mean of year 1 is positive and negative
  infinity when it is negative.
\<close>

theorem growth_zero_base_not_finite:
  assumes "(name, col) \<in> {(''casual'', m_casual), (''registered'', m_registered)}"
    and "series_mean (map col (filter (\<lambda>m. fst (gkey m) = 0) mt)) = Fin 0"
  shows "\<exists>v. map_of (pertumbuhan_tahunan mt) name = Some v \<and>
           v = (case series_mean (map col (filter (\<lambda>m. fst (gkey m) = 1) mt)) of
                  Fin a \<Rightarrow> if a = 0 then NaN else if 0 < a then PInf else NInf
                | PInf \<Rightarrow> PInf | NInf \<Rightarrow> NInf | NaN \<Rightarrow> NaN) \<and>
           (\<forall>x. v \<noteq> Fin x)"
proof -
  have v: "yoy col mt = (case series_mean (map col (filter (\<lambda>m. fst (gkey m) = 1) mt)) of
                  Fin a \<Rightarrow> if a = 0 then NaN else if 0 < a then PInf else NInf
                | PInf \<Rightarrow> PInf | NInf \<Rightarrow> NInf | NaN \<Rightarrow> NaN)"
    using assms(2)
    by (cases "series_mean (map col (filter (\<lambda>m. fst (gkey m) = 1) mt))")
      (simp_all add: yoy_def fsub_def signed_inf_def)
  then have "\<forall>x. yoy col mt \<noteq> Fin x"
    by (simp split: fval.splits)
  with v assms(1) show ?thesis
    by (auto simp: pertumbuhan_tahunan_def)
qed

theorem growth_zero_base_not_finite_witness:
  "series_mean (map m_casual (filter (\<lambda>m. fst (gkey m) = 0) (monthly_trends zero_base_example)))
     = Fin 0 \<and>
   series_mean (map m_casual (filter (\<lambda>m. fst (gkey m) = 1) (monthly_trends zero_base_example)))
     = Fin 10 \<and>
   map_of (pertumbuhan_tahunan (monthly_trends zero_base_example)) ''casual'' = Some PInf"
proof -
  have h: "(''casual'', m_casual) \<in> {(''casual'', m_casual), (''registered'', m_registered)}"
    by simp
  show ?thesis
    using growth_zero_base_not_finite [OF h zero_base_example_means(1)]
    by (simp add: zero_base_example_means)
qed

section \<open>The two monthly aggregations\<close>

lemma sort_remdups_map_mono:
  assumes mono: "\<forall>x \<in> set xs. \<forall>y \<in> set xs. x \<le> y \<longrightarrow> f x \<le> f y"
    and inj: "inj_on f (set xs)"
  shows "sort (remdups (map f xs)) = map f (sort (remdups xs))"
proof (rule sorted_distinct_set_unique)
  show "sorted (sort (remdups (map f xs)))" by simp
  show "distinct (sort (remdups (map f xs)))" by simp
  have "sorted (sort (remdups xs))" by simp
  then have "sorted_wrt (\<lambda>x y. f x \<le> f y) (sort (remdups xs))"
    by (rule sorted_wrt_mono_rel [rotated]) (simp add: mono)
  then show "sorted (map f (sort (remdups xs)))"
    by (simp add: sorted_map)
  show "distinct (map f (sort (remdups xs)))"
    using inj by (simp add: distinct_map)
  show "set (sort (remdups (map f xs))) = set (map f (sort (remdups xs)))"
    by simp
qed

lemma helper_keys:
  "concat (map (\<lambda>r. case ym r of None \<Rightarrow> [] | Some p \<Rightarrow> [(p, yr r)])
      (map (\<lambda>r. r\<lparr>ym := Some (to_period_M (dteday r))\<rparr>) df)) =
   map (\<lambda>r. (to_period_M (dteday r), yr r)) df"
  by (induction df) simp_all

lemma consistent_period:
  "dates_consistent r \<Longrightarrow> to_period_M (dteday r) = period_of_key (yr r, mnth r)"
  by (auto simp: dates_consistent_def to_period_M_def period_of_key_def)

lemma consistent_key_bounds:
  "dates_consistent r \<Longrightarrow> 0 \<le> 2011 + yr r \<and> 0 \<le> mnth r"
  by (auto simp: dates_consistent_def)

lemma helper_key_mono:
  assumes "0 \<le> 2011 + fst a" "0 \<le> snd a" "0 \<le> 2011 + fst b" "0 \<le> snd b"
  shows "a \<le> b \<Longrightarrow> (period_of_key a, fst a) \<le> (period_of_key b, fst b)"
    and "(period_of_key a, fst a) = (period_of_key b, fst b) \<longleftrightarrow> a = b"
  using assms by (auto simp: period_of_key_def less_eq_prod_def less_prod_def prod_eq_iff)

lemma helper_keys_consistent:
  assumes "\<forall>r \<in> set df. dates_consistent r"
  shows "sort (remdups (map (\<lambda>r. (to_period_M (dteday r), yr r)) df)) =
         map (\<lambda>k. (period_of_key k, fst k)) (group_keys (\<lambda>r. (yr r, mnth r)) df)"
proof -
  let ?key = "\<lambda>r::row. (yr r, mnth r)"
  let ?h = "\<lambda>k::int \<times> int. (period_of_key k, fst k)"
  have keys: "map (\<lambda>r. (to_period_M (dteday r), yr r)) df = map ?h (map ?key df)"
    using assms by (simp add: consistent_period)
  have bounds: "\<forall>k \<in> set (map ?key df). 0 \<le> 2011 + fst k \<and> 0 \<le> snd k"
    using assms consistent_key_bounds by auto
  have mono: "\<forall>a \<in> set (map ?key df). \<forall>b \<in> set (map ?key df). a \<le> b \<longrightarrow> ?h a \<le> ?h b"
    using bounds helper_key_mono(1) by blast
  have inj: "inj_on ?h (set (map ?key df))"
  proof (rule inj_onI)
    fix a b
    assume a: "a \<in> set (map ?key df)" and b: "b \<in> set (map ?key df)" and eq: "?h a = ?h b"
    from a b bounds have "0 \<le> 2011 + fst a" "0 \<le> snd a" "0 \<le> 2011 + fst b" "0 \<le> snd b"
      by blast+
    then show "a = b"
      using eq by (simp only: helper_key_mono(2))
  qed
  show ?thesis
    unfolding keys group_keys_def by (rule sort_remdups_map_mono [OF mono inj])
qed

lemma helper_group:
  assumes "\<forall>r \<in> set df. dates_consistent r" and "k \<in> (\<lambda>r. (yr r, mnth r)) ` set df"
  shows "int_col cnt (filter (\<lambda>r. ym r = Some (period_of_key k) \<and> yr r = fst k)
           (map (\<lambda>r. r\<lparr>ym := Some (to_period_M (dteday r))\<rparr>) df)) =
         int_col cnt (group_of (\<lambda>r. (yr r, mnth r)) k df)"
proof -
  from assms obtain r0 where r0: "r0 \<in> set df" "k = (yr r0, mnth r0)"
    by auto
  have kb: "0 \<le> 2011 + fst k" "0 \<le> snd k"
    using assms(1) r0 consistent_key_bounds by auto
  have same: "\<forall>r \<in> set df.
      (to_period_M (dteday r) = period_of_key k \<and> yr r = fst k) = ((yr r, mnth r) = k)"
  proof
    fix r assume r: "r \<in> set df"
    then have c: "dates_consistent r" using assms(1) by simp
    have rb: "0 \<le> 2011 + fst (yr r, mnth r)" "0 \<le> snd (yr r, mnth r)"
      using consistent_key_bounds [OF c] by simp_all
    show "(to_period_M (dteday r) = period_of_key k \<and> yr r = fst k) = ((yr r, mnth r) = k)"
      using helper_key_mono(2) [OF rb kb] by (simp add: consistent_period [OF c])
  qed
  have "filter (\<lambda>r. ym r = Some (period_of_key k) \<and> yr r = fst k)
           (map (\<lambda>r. r\<lparr>ym := Some (to_period_M (dteday r))\<rparr>) df) =
        map (\<lambda>r. r\<lparr>ym := Some (to_period_M (dteday r))\<rparr>)
          (filter (\<lambda>r. to_period_M (dteday r) = period_of_key k \<and> yr r = fst k) df)"
    by (simp add: filter_map comp_def)
  also have "filter (\<lambda>r. to_period_M (dteday r) = period_of_key k \<and> yr r = fst k) df =
        group_of (\<lambda>r. (yr r, mnth r)) k df"
    unfolding group_of_def using same by (intro filter_cong refl) simp
  finally show ?thesis
    by (simp add: int_col_def comp_def)
qed

text \<open>
  C10. For every frame whose records are consistent, \<^verbatim>\<open>create_monthly_trends_df\<close>
  (grouping by the month period of \<^verbatim>\<open>dteday\<close> and \<^verbatim>\<open>yr\<close>) and the grouping of the page
  (by \<^verbatim>\<open>yr\<close> and \<^verbatim>\<open>mnth\<close>) have the same groups in the same order: row by row, the
  helper's \<^verbatim>\<open>ym\<close> is the string of the month period of the page's key, its \<^verbatim>\<open>yr\<close> is
  the year of that key, and the two means of \<^verbatim>\<open>cnt\<close> are equal.
\<close>

theorem monthly_helper_agrees_with_page:
  assumes "\<forall>r \<in> set df. dates_consistent r"
  shows "map (\<lambda>t. (t_ym t, t_yr t, t_cnt t)) (snd (create_monthly_trends_df df)) =
         map (\<lambda>m. (period_str (period_of_key (gkey m)), fst (gkey m), m_cnt m))
             (monthly_trends df)"
proof -
  let ?key = "\<lambda>r::row. (yr r, mnth r)"
  let ?df' = "map (\<lambda>r. r\<lparr>ym := Some (to_period_M (dteday r))\<rparr>) df"
  have "map (\<lambda>t. (t_ym t, t_yr t, t_cnt t)) (snd (create_monthly_trends_df df)) =
        map (\<lambda>k. (period_str (period_of_key k), fst k,
                   series_mean (int_col cnt
                     (filter (\<lambda>r. ym r = Some (period_of_key k) \<and> yr r = fst k) ?df'))))
            (group_keys ?key df)"
    by (simp add: create_monthly_trends_df_def Let_def helper_keys
        helper_keys_consistent [OF assms] comp_def)
  also have "\<dots> = map (\<lambda>k. (period_str (period_of_key k), fst k,
                   series_mean (int_col cnt (group_of ?key k df))))
            (group_keys ?key df)"
    using helper_group [OF assms] by (intro map_cong refl) (simp add: set_group_keys)
  also have "\<dots> = map (\<lambda>m. (period_str (period_of_key (gkey m)), fst (gkey m), m_cnt m))
             (monthly_trends df)"
    by (simp add: monthly_trends_def groupby_mean_def comp_def)
  finally show ?thesis .
qed

lemma period_str_values:
  "period_str (2011, 2) = ''2011-02''"
  "period_str (2011, 12) = ''2011-12''"
  "period_str (2012, Suc 0) = ''2012-01''"
  by (simp_all add: period_str_def str_nat.simps)

theorem monthly_helper_agrees_with_page_witness:
  "list_all dates_consistent monthly_example \<and>
   map (\<lambda>t. (t_ym t, t_yr t, t_cnt t)) (snd (create_monthly_trends_df monthly_example)) =
     [(''2011-02'', 0, Fin 52), (''2011-12'', 0, Fin 51), (''2012-01'', 1, Fin 100)] \<and>
   map (\<lambda>m. (gkey m, m_cnt m)) (monthly_trends monthly_example) =
     [((0, 2), Fin 52), ((0, 12), Fin 51), ((1, 1), Fin 100)]"
proof -
  have h: "\<forall>r \<in> set monthly_example. dates_consistent r"
    by (simp add: monthly_example_def dates_consistent_def loaded_raw)
  show ?thesis
    using h monthly_helper_agrees_with_page [OF h]
    by (simp add: monthly_example_value period_of_key_def period_str_values list_all_iff)
qed

section \<open>The hourly pattern in float64\<close>

lemma round_half_even_error: "\<bar>of_int (round_half_even y) - y\<bar> \<le> 1 / 2"
proof -
  have "of_int \<lfloor>y\<rfloor> \<le> y" "y < of_int \<lfloor>y\<rfloor> + 1"
    by linarith+
  then show ?thesis
    by (auto simp: round_half_even_def Let_def)
qed

lemma round_half_even_of_int: "round_half_even (of_int k) = k"
  by (simp add: round_half_even_def)

lemma pow2_le_of_int: "(2::int) ^ k \<le> n \<Longrightarrow> (2::rat) ^ k \<le> of_int n"
proof -
  assume "(2::int) ^ k \<le> n"
  then have "(of_int (2 ^ k) :: rat) \<le> of_int n"
    by (simp only: of_int_le_iff)
  then show ?thesis by simp
qed

lemma of_int_less_pow2: "n < (2::int) ^ k \<Longrightarrow> of_int n + 1 \<le> (2::rat) ^ k"
proof -
  assume "n < (2::int) ^ k"
  then have "n + 1 \<le> 2 ^ k" by simp
  then have "(of_int (n + 1) :: rat) \<le> of_int (2 ^ k)"
    by (simp only: of_int_le_iff)
  then show ?thesis by simp
qed

lemma exponent_bounds:
  assumes "0 < x"
  shows "power_int 2 (exponent x) \<le> x" and "x < power_int 2 (exponent x + 1)"
proof -
  have both: "power_int 2 (exponent x) \<le> x \<and> x < power_int 2 (exponent x + 1)"
  proof (cases "1 \<le> x")
    case True
    define n where "n = \<lfloor>x\<rfloor>"
    define b where "b = bitlen n"
    have n: "1 \<le> n" "of_int n \<le> x" "x < of_int n + 1"
      using True by (simp_all add: n_def le_floor_iff) linarith
    then have bnd: "2 ^ nat (b - 1) \<le> n" "n < 2 ^ nat b"
      using bitlen_bounds [of n] by (simp_all add: b_def)
    have b: "1 \<le> b"
      using n(1) bnd(2) by (cases "b \<le> 0") auto
    have e: "exponent x = b - 1"
      using True by (simp add: exponent_def n_def b_def)
    have "(2::rat) ^ nat (b - 1) \<le> x"
      using pow2_le_of_int [OF bnd(1)] n(2) by (rule order_trans)
    then have lo: "power_int 2 (b - 1) \<le> x"
      using b by (simp add: power_int_def)
    have "x < (2::rat) ^ nat b"
      using n(3) of_int_less_pow2 [OF bnd(2)] by (rule less_le_trans)
    then have hi: "x < power_int 2 b"
      using b by (simp add: power_int_def)
    from lo hi show ?thesis by (simp add: e)
  next
    case False
    define y where "y = 1 / x"
    define m where "m = \<lceil>y\<rceil> - 1"
    define b where "b = bitlen m"
    have y: "1 < y" "0 < y" "x = 1 / y"
      using assms False by (simp_all add: y_def)
    have "1 < \<lceil>y\<rceil>"
      using y(1) by (simp add: less_ceiling_iff)
    moreover have "of_int \<lceil>y\<rceil> - 1 < y" "y \<le> of_int \<lceil>y\<rceil>"
      by linarith+
    ultimately have m: "1 \<le> m" "of_int m < y" "y \<le> of_int m + 1"
      by (simp_all add: m_def)
    then have bnd: "2 ^ nat (b - 1) \<le> m" "m < 2 ^ nat b"
      using bitlen_bounds [of m] by (simp_all add: b_def)
    have b: "1 \<le> b"
      using m(1) bnd(2) by (cases "b \<le> 0") auto
    have e: "exponent x = - b"
      using False by (simp add: exponent_def y_def m_def b_def)
    have "y \<le> (2::rat) ^ nat b"
      using m(3) of_int_less_pow2 [OF bnd(2)] by (rule order_trans)
    then have "1 / 2 ^ nat b \<le> 1 / y"
      using y(2) by (simp add: frac_le)
    moreover have "power_int (2 :: rat) (- b) = 1 / 2 ^ nat b"
      using b by (simp add: power_int_def inverse_eq_divide power_one_over)
    ultimately have lo: "power_int 2 (- b) \<le> x"
      using y(3) by simp
    have "(2::rat) ^ nat (b - 1) < y"
      using pow2_le_of_int [OF bnd(1)] m(2) by (rule le_less_trans)
    then have "1 / y < 1 / 2 ^ nat (b - 1)"
      by (simp add: frac_less2)
    moreover have "power_int (2 :: rat) (- b + 1) = 1 / 2 ^ nat (b - 1)"
      using b by (cases "b = 1") (simp_all add: power_int_def inverse_eq_divide
          power_one_over)
    ultimately have hi: "x < power_int 2 (- b + 1)"
      using y(3) by simp
    from lo hi show ?thesis by (simp add: e)
  qed
  from both show "power_int 2 (exponent x) \<le> x" and "x < power_int 2 (exponent x + 1)"
    by simp_all
qed

lemma f64_error: "\<bar>f64 x - x\<bar> \<le> \<bar>x\<bar> / 2 ^ 53"
proof (cases "x = 0")
  case True
  then show ?thesis by (simp add: f64_def)
next
  case False
  define e where "e = exponent \<bar>x\<bar>"
  define ulp :: rat where "ulp = power_int 2 (e - 52)"
  define k where "k = round_half_even (x / ulp)"
  have ulp: "0 < ulp"
    by (simp add: ulp_def)
  have f: "f64 x = of_int k * ulp"
    using False by (simp add: f64_def Let_def k_def ulp_def e_def)
  have "power_int 2 e \<le> \<bar>x\<bar>"
    unfolding e_def using False by (intro exponent_bounds) simp
  moreover have "power_int (2::rat) e = ulp * 2 ^ 52"
    by (simp add: ulp_def power_int_diff)
  ultimately have x: "ulp * 2 ^ 52 \<le> \<bar>x\<bar>"
    by simp
  have "f64 x - x = (of_int k - x / ulp) * ulp"
    using ulp by (simp add: f field_simps)
  then have "\<bar>f64 x - x\<bar> = \<bar>of_int k - x / ulp\<bar> * ulp"
    using ulp by (simp add: abs_mult)
  also have "\<dots> \<le> (1 / 2) * ulp"
    using round_half_even_error [of "x / ulp"] ulp
    by (intro mult_right_mono) (simp_all add: k_def)
  also have "\<dots> \<le> \<bar>x\<bar> / 2 ^ 53"
    using x by (simp add: field_simps)
  finally show ?thesis .
qed

lemma f64_exact:
  assumes "x \<noteq> 0" and "x / power_int 2 (exponent \<bar>x\<bar> - 52) = of_int j"
  shows "f64 x = x"
proof -
  define ulp :: rat where "ulp = power_int 2 (exponent \<bar>x\<bar> - 52)"
  have ulp: "0 < ulp"
    by (simp add: ulp_def)
  have q: "x / ulp = of_int j"
    using assms(2) by (simp add: ulp_def)
  have "f64 x = of_int (round_half_even (x / ulp)) * ulp"
    using assms(1) by (simp add: f64_def Let_def ulp_def)
  also have "\<dots> = (x / ulp) * ulp"
    by (simp add: q round_half_even_of_int)
  also have "\<dots> = x"
    using ulp by simp
  finally show ?thesis .
qed

lemma f64_of_int:
  assumes "\<bar>k\<bar> \<le> 2 ^ 53"
  shows "f64 (of_int k) = of_int k"
proof (cases "k = 0")
  case True
  then show ?thesis by (simp add: f64_def)
next
  case False
  define x :: rat where "x = of_int k"
  define e where "e = exponent \<bar>x\<bar>"
  have x: "x \<noteq> 0" "1 \<le> \<bar>x\<bar>" "\<bar>x\<bar> \<le> 2 ^ 53"
  proof -
    show "x \<noteq> 0" using False by (simp add: x_def)
    have "1 \<le> \<bar>k\<bar>" using False by simp
    then have "(of_int 1 :: rat) \<le> of_int \<bar>k\<bar>" by (simp only: of_int_le_iff)
    then show "1 \<le> \<bar>x\<bar>" by (simp add: x_def)
    have "(of_int \<bar>k\<bar> :: rat) \<le> of_int (2 ^ 53)"
      using assms by (simp only: of_int_le_iff)
    then show "\<bar>x\<bar> \<le> 2 ^ 53" by (simp add: x_def)
  qed
  have lo: "power_int 2 e \<le> \<bar>x\<bar>" and hi: "\<bar>x\<bar> < power_int 2 (e + 1)"
    unfolding e_def using x(1) by (intro exponent_bounds; simp)+
  have e0: "0 \<le> e"
  proof (rule ccontr)
    assume "\<not> 0 \<le> e"
    then have "e + 1 \<le> 0" by simp
    then have "power_int (2::rat) (e + 1) \<le> power_int 2 0"
      by (intro power_int_increasing) simp_all
    with hi x(2) show False by simp
  qed
  have e53: "e \<le> 53"
  proof (rule ccontr)
    assume "\<not> e \<le> 53"
    then have "54 \<le> e" by simp
    then have "power_int (2::rat) 54 \<le> power_int 2 e"
      by (intro power_int_increasing) simp_all
    with lo x(3) show False by simp
  qed
  have "\<exists>j. x / power_int 2 (e - 52) = of_int j"
  proof (cases "e = 53")
    case True
    have "power_int (2::rat) 53 \<le> \<bar>x\<bar>"
      using lo True by simp
    with x(3) have "\<bar>x\<bar> = 2 ^ 53" by simp
    then have "x = 2 ^ 53 \<or> x = - (2 ^ 53)"
      by (simp add: abs_if split: if_splits)
    then have "x / power_int 2 (e - 52) = of_int (2 ^ 52) \<or>
               x / power_int 2 (e - 52) = of_int (- (2 ^ 52))"
      using True by auto
    then show ?thesis by blast
  next
    case False
    with e53 have le: "e \<le> 52" by simp
    then have "power_int (2::rat) (e - 52) = 1 / 2 ^ nat (52 - e)"
      by (cases "e = 52") (simp_all add: power_int_def inverse_eq_divide power_one_over)
    then have "x / power_int 2 (e - 52) = of_int (k * 2 ^ nat (52 - e))"
      by (simp add: x_def)
    then show ?thesis by blast
  qed
  then obtain j where "x / power_int 2 (exponent \<bar>x\<bar> - 52) = of_int j"
    by (auto simp: e_def)
  with x(1) have "f64 x = x"
    by (rule f64_exact)
  then show ?thesis by (simp add: x_def)
qed

lemma f64_of_nat: "n \<le> 2 ^ 53 \<Longrightarrow> f64 (of_nat n) = of_nat n"
  using f64_of_int [of "int n"] by simp

lemma f64_sum_tolerance:
  "\<bar>f64 (a + b) - f64 (f64 a + f64 b)\<bar> \<le> (\<bar>a\<bar> + \<bar>b\<bar>) / 2 ^ 51"
proof -
  define M where "M = \<bar>a\<bar> + \<bar>b\<bar>"
  define s where "s = f64 a + f64 b"
  have M: "0 \<le> M" by (simp add: M_def)
  have ea: "\<bar>f64 a - a\<bar> \<le> \<bar>a\<bar> / 2 ^ 53" and eb: "\<bar>f64 b - b\<bar> \<le> \<bar>b\<bar> / 2 ^ 53"
    by (rule f64_error)+
  have "\<bar>f64 (a + b) - (a + b)\<bar> \<le> \<bar>a + b\<bar> / 2 ^ 53"
    by (rule f64_error)
  also have "\<dots> \<le> M / 2 ^ 53"
    by (simp add: M_def divide_right_mono)
  finally have et: "\<bar>f64 (a + b) - (a + b)\<bar> \<le> M / 2 ^ 53" .
  have "\<bar>s - (a + b)\<bar> \<le> \<bar>f64 a - a\<bar> + \<bar>f64 b - b\<bar>"
    unfolding s_def by linarith
  also have "\<dots> \<le> \<bar>a\<bar> / 2 ^ 53 + \<bar>b\<bar> / 2 ^ 53"
    using ea eb by (rule add_mono)
  also have "\<dots> = M / 2 ^ 53"
    by (simp only: M_def add_divide_distrib)
  finally have es: "\<bar>s - (a + b)\<bar> \<le> M / 2 ^ 53" .
  have "\<bar>s\<bar> \<le> \<bar>a + b\<bar> + \<bar>s - (a + b)\<bar>"
    by simp
  also have "\<dots> \<le> M + M / 2 ^ 53"
    using es by (simp add: M_def add_mono)
  also have "\<dots> \<le> 2 * M"
    using M by simp
  finally have "\<bar>s\<bar> / 2 ^ 53 \<le> 2 * M / 2 ^ 53"
    by (simp add: divide_right_mono)
  moreover have "\<bar>f64 s - s\<bar> \<le> \<bar>s\<bar> / 2 ^ 53"
    by (rule f64_error)
  ultimately have er: "\<bar>f64 s - s\<bar> \<le> 2 * M / 2 ^ 53"
    by simp
  have "\<bar>f64 (a + b) - f64 s\<bar> \<le> M / 2 ^ 53 + M / 2 ^ 53 + 2 * M / 2 ^ 53"
    using et es er by linarith
  also have "\<dots> = M / 2 ^ 51"
    by simp
  finally show ?thesis
    by (simp add: s_def M_def)
qed

lemma f64_sum_tolerance_unrounded:
  "\<bar>f64 (a + b) - (f64 a + f64 b)\<bar> \<le> (\<bar>a\<bar> + \<bar>b\<bar>) / 2 ^ 52"
proof -
  have "\<bar>f64 (a + b) - (a + b)\<bar> \<le> \<bar>a + b\<bar> / 2 ^ 53"
    by (rule f64_error)
  also have "\<dots> \<le> (\<bar>a\<bar> + \<bar>b\<bar>) / 2 ^ 53"
    by (simp add: divide_right_mono)
  finally have et: "\<bar>f64 (a + b) - (a + b)\<bar> \<le> (\<bar>a\<bar> + \<bar>b\<bar>) / 2 ^ 53" .
  have ea: "\<bar>f64 a - a\<bar> \<le> \<bar>a\<bar> / 2 ^ 53" and eb: "\<bar>f64 b - b\<bar> \<le> \<bar>b\<bar> / 2 ^ 53"
    by (rule f64_error)+
  have "\<bar>f64 (a + b) - (f64 a + f64 b)\<bar> \<le>
        \<bar>f64 (a + b) - (a + b)\<bar> + \<bar>f64 a - a\<bar> + \<bar>f64 b - b\<bar>"
    by linarith
  also have "\<dots> \<le> (\<bar>a\<bar> + \<bar>b\<bar>) / 2 ^ 53 + \<bar>a\<bar> / 2 ^ 53 + \<bar>b\<bar> / 2 ^ 53"
    using et ea eb by linarith
  also have "\<dots> = (\<bar>a\<bar> + \<bar>b\<bar>) / 2 ^ 52"
    by (simp add: add_divide_distrib)
  finally show ?thesis .
qed

lemma f64_sum_exact:
  "\<bar>a\<bar> + (\<Sum>k\<leftarrow>ks. \<bar>k\<bar>) \<le> 2 ^ 53 \<Longrightarrow>
   foldl (\<lambda>a x. fround (fadd a x)) (Fin (of_int a)) (map (\<lambda>k. fround (Fin (of_int k))) ks) =
     Fin (of_int (a + sum_list ks))"
proof (induction ks arbitrary: a)
  case Nil
  then show ?case by simp
next
  case (Cons k ks)
  have nonneg: "0 \<le> (\<Sum>k\<leftarrow>ks. \<bar>k\<bar>)"
    by (rule sum_list_nonneg) auto
  have k: "\<bar>k\<bar> \<le> 2 ^ 53" and ak: "\<bar>a + k\<bar> \<le> 2 ^ 53"
    and rest: "\<bar>a + k\<bar> + (\<Sum>k\<leftarrow>ks. \<bar>k\<bar>) \<le> 2 ^ 53"
    using Cons.prems nonneg by simp_all
  have "fround (fadd (Fin (of_int a)) (fround (Fin (of_int k)))) = Fin (of_int (a + k))"
    using f64_of_int [OF k] f64_of_int [OF ak] by simp
  then show ?case
    using Cons.IH [OF rest] by (simp add: add.assoc)
qed

lemma mean_int_col_f64:
  assumes "g \<noteq> []" and "(\<Sum>r\<leftarrow>g. \<bar>c r\<bar>) \<le> 2 ^ 53" and "length g \<le> 2 ^ 53"
  shows "series_mean_f64 (int_col_f64 c g) = Fin (f64 (arith_mean (map c g)))"
proof -
  have col: "int_col_f64 c g = map (\<lambda>k. fround (Fin (of_int k))) (map c g)"
    by (simp add: int_col_f64_def)
  have keep: "filter (\<lambda>x. x \<noteq> NaN) (int_col_f64 c g) = int_col_f64 c g"
    by (simp add: int_col_f64_def)
  have "(\<Sum>k\<leftarrow>map c g. \<bar>k\<bar>) \<le> 2 ^ 53"
    using assms(2) by (simp add: comp_def)
  then have sum: "series_sum_f64 (int_col_f64 c g) = Fin (of_int (sum_list (map c g)))"
    using f64_sum_exact [of 0 "map c g"] by (simp add: series_sum_f64_def col)
  have n: "f64 (of_nat (length g)) = of_nat (length g)"
    using assms(3) by (rule f64_of_nat)
  have len: "length (int_col_f64 c g) = length g" and ne: "int_col_f64 c g \<noteq> []"
    using assms(1) by (simp_all add: int_col_f64_def)
  show ?thesis
    using assms(1) by (simp add: series_mean_f64_def keep sum n len ne arith_mean_def)
qed

lemma sum_list_filter_le:
  fixes f :: "'a \<Rightarrow> int"
  shows "(\<forall>x \<in> set xs. 0 \<le> f x) \<Longrightarrow> (\<Sum>x\<leftarrow>filter P xs. f x) \<le> (\<Sum>x\<leftarrow>xs. f x)"
  by (induction xs) auto

lemma arith_mean_total:
  assumes "\<forall>r \<in> set g. cnt r = casual r + registered r"
  shows "arith_mean (map cnt g) = arith_mean (map casual g) + arith_mean (map registered g)"
proof -
  from assms have "sum_list (map cnt g) = sum_list (map casual g) + sum_list (map registered g)"
    by (induction g) simp_all
  then show ?thesis
    by (simp add: arith_mean_def add_divide_distrib)
qed

lemma groupby_mean_f64_row:
  assumes "row \<in> set (groupby_mean_f64 key df)"
  shows "gkey row \<in> key ` set df"
    and "m_casual row = series_mean_f64 (int_col_f64 casual (group_of key (gkey row) df))"
    and "m_registered row = series_mean_f64 (int_col_f64 registered (group_of key (gkey row) df))"
    and "m_cnt row = series_mean_f64 (int_col_f64 cnt (group_of key (gkey row) df))"
  using assms by (auto simp: groupby_mean_f64_def set_group_keys)

text \<open>
  C9. Let every record of the input have \<^verbatim>\<open>cnt = casual + registered\<close>, and let the
  counts be in the range where float64 is exact on integers: the absolute values of all
  counts add up to at most \<open>2 ^ 53\<close>, and so does the number of records. Then every row
  of the hourly pattern holds, as float64 values, the correctly rounded means of
  \<^verbatim>\<open>casual\<close>, \<^verbatim>\<open>registered\<close> and \<^verbatim>\<open>cnt\<close> over the records of its hour, and its mean
  of \<^verbatim>\<open>cnt\<close> differs from the float64 sum of its means of \<^verbatim>\<open>casual\<close> and
  \<^verbatim>\<open>registered\<close> by at most \<open>2 ^ -51\<close> times the sum of the absolute values of the two
  exact means (for counts that are not negative: times the exact mean of \<^verbatim>\<open>cnt\<close>), and
  from their unrounded sum by at most \<open>2 ^ -52\<close> times that. The
  exact means themselves add up exactly (\<open>arith_mean_total\<close>); the float64 values need
  not, as the witness shows with the means 1/10, 1/5 and 3/10. An empty input has no
  rows, so the statement needs no hypothesis that the input is not empty.
\<close>

theorem hourly_mean_total_within_tolerance:
  assumes "\<forall>r \<in> set df. cnt r = casual r + registered r"
    and "(\<Sum>r\<leftarrow>df. \<bar>casual r\<bar> + \<bar>registered r\<bar>) \<le> 2 ^ 53"
    and "length df \<le> 2 ^ 53"
  shows "\<forall>row \<in> set (create_hourly_patterns_df_f64 df).
           \<exists>c g t.
             m_casual row = Fin c \<and> m_registered row = Fin g \<and> m_cnt row = Fin t \<and>
             c = f64 (arith_mean (map casual (filter (\<lambda>r. hr r = gkey row) df))) \<and>
             g = f64 (arith_mean (map registered (filter (\<lambda>r. hr r = gkey row) df))) \<and>
             t = f64 (arith_mean (map cnt (filter (\<lambda>r. hr r = gkey row) df))) \<and>
             \<bar>t - (c + g)\<bar> \<le>
               (\<bar>arith_mean (map casual (filter (\<lambda>r. hr r = gkey row) df))\<bar> +
                \<bar>arith_mean (map registered (filter (\<lambda>r. hr r = gkey row) df))\<bar>) / 2 ^ 52 \<and>
             \<bar>t - f64 (c + g)\<bar> \<le>
               (\<bar>arith_mean (map casual (filter (\<lambda>r. hr r = gkey row) df))\<bar> +
                \<bar>arith_mean (map registered (filter (\<lambda>r. hr r = gkey row) df))\<bar>) / 2 ^ 51"
proof
  fix row
  assume row: "row \<in> set (create_hourly_patterns_df_f64 df)"
  define G where "G = filter (\<lambda>r. hr r = gkey row) df"
  have G: "G = group_of hr (gkey row) df"
    by (simp add: G_def group_of_def)
  have sub: "set G \<subseteq> set df"
    by (auto simp: G_def)
  from row have "gkey row \<in> hr ` set df"
    by (simp add: create_hourly_patterns_df_f64_def groupby_mean_f64_row(1))
  then have ne: "G \<noteq> []"
    by (auto simp: G_def filter_empty_conv)
  have len: "length G \<le> 2 ^ 53"
    unfolding G_def using length_filter_le [of "\<lambda>r. hr r = gkey row" df] assms(3)
    by (rule order_trans)
  have "(\<Sum>r\<leftarrow>G. \<bar>casual r\<bar> + \<bar>registered r\<bar>) \<le> (\<Sum>r\<leftarrow>df. \<bar>casual r\<bar> + \<bar>registered r\<bar>)"
    unfolding G_def by (rule sum_list_filter_le) simp
  with assms(2) have total: "(\<Sum>r\<leftarrow>G. \<bar>casual r\<bar> + \<bar>registered r\<bar>) \<le> 2 ^ 53"
    by simp
  have "(\<Sum>r\<leftarrow>G. \<bar>casual r\<bar>) \<le> (\<Sum>r\<leftarrow>G. \<bar>casual r\<bar> + \<bar>registered r\<bar>)"
    by (rule sum_list_mono) simp
  with total have bc: "(\<Sum>r\<leftarrow>G. \<bar>casual r\<bar>) \<le> 2 ^ 53" by simp
  have "(\<Sum>r\<leftarrow>G. \<bar>registered r\<bar>) \<le> (\<Sum>r\<leftarrow>G. \<bar>casual r\<bar> + \<bar>registered r\<bar>)"
    by (rule sum_list_mono) simp
  with total have bg: "(\<Sum>r\<leftarrow>G. \<bar>registered r\<bar>) \<le> 2 ^ 53" by simp
  have inv: "\<forall>r \<in> set G. cnt r = casual r + registered r"
    using assms(1) sub by auto
  then have "(\<Sum>r\<leftarrow>G. \<bar>cnt r\<bar>) \<le> (\<Sum>r\<leftarrow>G. \<bar>casual r\<bar> + \<bar>registered r\<bar>)"
    by (intro sum_list_mono) simp
  with total have bt: "(\<Sum>r\<leftarrow>G. \<bar>cnt r\<bar>) \<le> 2 ^ 53" by simp
  have c: "m_casual row = Fin (f64 (arith_mean (map casual G)))"
    and g: "m_registered row = Fin (f64 (arith_mean (map registered G)))"
    and t: "m_cnt row = Fin (f64 (arith_mean (map cnt G)))"
    using row mean_int_col_f64 [OF ne bc len] mean_int_col_f64 [OF ne bg len]
      mean_int_col_f64 [OF ne bt len]
    by (simp_all add: create_hourly_patterns_df_f64_def groupby_mean_f64_row G)
  have "\<bar>f64 (arith_mean (map cnt G)) -
          f64 (f64 (arith_mean (map casual G)) + f64 (arith_mean (map registered G)))\<bar> \<le>
        (\<bar>arith_mean (map casual G)\<bar> + \<bar>arith_mean (map registered G)\<bar>) / 2 ^ 51"
    unfolding arith_mean_total [OF inv] by (rule f64_sum_tolerance)
  moreover have "\<bar>f64 (arith_mean (map cnt G)) -
          (f64 (arith_mean (map casual G)) + f64 (arith_mean (map registered G)))\<bar> \<le>
        (\<bar>arith_mean (map casual G)\<bar> + \<bar>arith_mean (map registered G)\<bar>) / 2 ^ 52"
    unfolding arith_mean_total [OF inv] by (rule f64_sum_tolerance_unrounded)
  ultimately show "\<exists>c g t.
             m_casual row = Fin c \<and> m_registered row = Fin g \<and> m_cnt row = Fin t \<and>
             c = f64 (arith_mean (map casual (filter (\<lambda>r. hr r = gkey row) df))) \<and>
             g = f64 (arith_mean (map registered (filter (\<lambda>r. hr r = gkey row) df))) \<and>
             t = f64 (arith_mean (map cnt (filter (\<lambda>r. hr r = gkey row) df))) \<and>
             \<bar>t - (c + g)\<bar> \<le>
               (\<bar>arith_mean (map casual (filter (\<lambda>r. hr r = gkey row) df))\<bar> +
                \<bar>arith_mean (map registered (filter (\<lambda>r. hr r = gkey row) df))\<bar>) / 2 ^ 52 \<and>
             \<bar>t - f64 (c + g)\<bar> \<le>
               (\<bar>arith_mean (map casual (filter (\<lambda>r. hr r = gkey row) df))\<bar> +
                \<bar>arith_mean (map registered (filter (\<lambda>r. hr r = gkey row) df))\<bar>) / 2 ^ 51"
    using c g t by (simp add: G_def)
qed

lemma f64_tenths:
  "f64 (1 / 10) = 3602879701896397 / 36028797018963968"
  "f64 (1 / 5) = 3602879701896397 / 18014398509481984"
  "f64 (3 / 10) = 5404319552844595 / 18014398509481984"
  "f64 (3602879701896397 / 36028797018963968 + 3602879701896397 / 18014398509481984) =
     1351079888211149 / 4503599627370496"
  by code_simp+

lemma hour5_record_fields:
  "hr (hour5_record c g) = 5" "casual (hour5_record c g) = c"
  "registered (hour5_record c g) = g" "cnt (hour5_record c g) = c + g"
  by (simp_all add: hour5_record_def loaded_raw)

lemma tenths_example_group:
  "group_keys hr tenths_example = [5]"
  "filter (\<lambda>r. hr r = 5) tenths_example = tenths_example"
  "map casual tenths_example = [1, 0, 0, 0, 0, 0, 0, 0, 0, 0]"
  "map registered tenths_example = [2, 0, 0, 0, 0, 0, 0, 0, 0, 0]"
  "map cnt tenths_example = [3, 0, 0, 0, 0, 0, 0, 0, 0, 0]"
  by (simp_all add: group_keys_def tenths_example_def hour5_record_fields)

lemma tenths_example_hypotheses:
  "\<forall>r \<in> set tenths_example. cnt r = casual r + registered r"
  "(\<Sum>r\<leftarrow>tenths_example. \<bar>casual r\<bar> + \<bar>registered r\<bar>) \<le> 2 ^ 53"
  "length tenths_example \<le> 2 ^ 53"
  by (simp_all add: tenths_example_def hour5_record_fields)

theorem hourly_mean_total_within_tolerance_witness:
  "list_all (\<lambda>r. cnt r = casual r + registered r) tenths_example \<and>
   (\<Sum>r\<leftarrow>tenths_example. \<bar>casual r\<bar> + \<bar>registered r\<bar>) = 3 \<and>
   length tenths_example = 10 \<and>
   create_hourly_patterns_df_f64 tenths_example =
     [\<lparr>gkey = 5, m_casual = Fin (3602879701896397 / 36028797018963968),
       m_registered = Fin (3602879701896397 / 18014398509481984),
       m_cnt = Fin (5404319552844595 / 18014398509481984)\<rparr>] \<and>
   f64 (3602879701896397 / 36028797018963968 + 3602879701896397 / 18014398509481984) =
     1351079888211149 / 4503599627370496 \<and>
   \<bar>5404319552844595 / 18014398509481984 - 1351079888211149 / 4503599627370496 :: rat\<bar>
     \<le> (\<bar>1 / 10\<bar> + \<bar>1 / 5\<bar>) / 2 ^ 51"
proof -
  have keys: "map gkey (create_hourly_patterns_df_f64 tenths_example) = [5]"
    by (simp add: create_hourly_patterns_df_f64_def groupby_mean_f64_def comp_def
        tenths_example_group)
  then obtain row where row: "create_hourly_patterns_df_f64 tenths_example = [row]" "gkey row = 5"
    by auto
  have means: "m_casual row = Fin (3602879701896397 / 36028797018963968)"
    "m_registered row = Fin (3602879701896397 / 18014398509481984)"
    "m_cnt row = Fin (5404319552844595 / 18014398509481984)"
    using hourly_mean_total_within_tolerance [OF tenths_example_hypotheses]
    by (auto simp: row tenths_example_group arith_mean_def f64_tenths)
  have "row = \<lparr>gkey = 5, m_casual = Fin (3602879701896397 / 36028797018963968),
       m_registered = Fin (3602879701896397 / 18014398509481984),
       m_cnt = Fin (5404319552844595 / 18014398509481984)\<rparr>"
    using row(2) means by (cases row) simp
  with row(1) have c4: "create_hourly_patterns_df_f64 tenths_example =
     [\<lparr>gkey = 5, m_casual = Fin (3602879701896397 / 36028797018963968),
       m_registered = Fin (3602879701896397 / 18014398509481984),
       m_cnt = Fin (5404319552844595 / 18014398509481984)\<rparr>]"
    by simp
  have c1: "list_all (\<lambda>r. cnt r = casual r + registered r) tenths_example"
    using tenths_example_hypotheses(1) by (simp only: list_all_iff)
  have c2: "(\<Sum>r\<leftarrow>tenths_example. \<bar>casual r\<bar> + \<bar>registered r\<bar>) = 3"
    and c3: "length tenths_example = 10"
    by (simp_all add: tenths_example_def hour5_record_fields)
  have c6: "\<bar>5404319552844595 / 18014398509481984 - 1351079888211149 / 4503599627370496 :: rat\<bar>
     \<le> (\<bar>1 / 10\<bar> + \<bar>1 / 5\<bar>) / 2 ^ 51"
    by simp
  show ?thesis
    using c1 c2 c3 c4 f64_tenths(4) c6 by blast
qed

end
